theory Spec2Isabelle
  imports Main "HOL-Library.AList"
begin

section \<open>RDF terms, JavaScript values and errors\<close>

text \<open>
  An RDF/JS term is discriminated by its \<open>termType\<close>; every term has a string
  \<open>value\<close>, and a literal also has a \<open>datatype\<close>, itself a term (the decoders
  test its \<open>termType\<close>). The \<open>language\<close> of a literal is never read by
  the code below and is left out. A string is a list of 8-bit characters; the code
  compares strings for equality and hands them to \<open>parseInt\<close>, nothing else.
\<close>

datatype Term =
    NamedNode string
  | BlankNode string
  | Literal string Term
  | Variable string
  | DefaultGraph

fun term_value :: "Term \<Rightarrow> string" where
  "term_value (NamedNode v) = v"
| "term_value (BlankNode v) = v"
| "term_value (Literal v dt) = v"
| "term_value (Variable v) = v"
| "term_value DefaultGraph = []"

fun isLiteral :: "Term \<Rightarrow> bool" where
  "isLiteral (Literal v dt) = True"
| "isLiteral t = False"

fun isNamedNode :: "Term \<Rightarrow> bool" where
  "isNamedNode (NamedNode v) = True"
| "isNamedNode t = False"

text \<open>
  A JavaScript number as it occurs here: \<open>parseInt\<close> yields \<open>NaN\<close> or an integral
  value, and \<open>Infinity\<close> is the default of \<open>maxCount\<close>. Rounding an integer to
  the nearest double keeps its order with respect to 0 and 1, the only numbers it is
  compared with, so an integral value is kept as an \<open>int\<close>.
\<close>

datatype number = NaN | Infinity | Num int

fun num_less :: "number \<Rightarrow> number \<Rightarrow> bool" where
  "num_less (Num a) (Num b) = (a < b)"
| "num_less (Num a) Infinity = True"
| "num_less a b = False"

fun num_strict_eq :: "number \<Rightarrow> number \<Rightarrow> bool" where
  "num_strict_eq (Num a) (Num b) = (a = b)"
| "num_strict_eq Infinity Infinity = True"
| "num_strict_eq a b = False"

text \<open>
  Native values crossing the codec boundary. A \<open>Date\<close> carries its time value, a
  \<open>URL\<close> its \<open>href\<close>; \<open>JSObject\<close> and \<open>JSFunction\<close> stand for any other
  object and any function.
\<close>

datatype JSValue =
    JSUndefined
  | JSNull
  | JSBoolean bool
  | JSNumber number
  | JSString string
  | JSDate int
  | JSURL string
  | JSTerm Term
  | JSObject
  | JSFunction

fun typeof :: "JSValue \<Rightarrow> string" where
  "typeof JSUndefined = ''undefined''"
| "typeof (JSBoolean b) = ''boolean''"
| "typeof (JSNumber n) = ''number''"
| "typeof (JSString s) = ''string''"
| "typeof JSFunction = ''function''"
| "typeof v = ''object''"

fun instanceofDate :: "JSValue \<Rightarrow> bool" where
  "instanceofDate (JSDate d) = True"
| "instanceofDate v = False"

text \<open>
  Every \<open>throw new Error(...)\<close> of the sources is a value of this type, one
  constructor per kind of failure:
  \<^item> \<open>ShapeMismatch\<close>: "Expected Literal term, ..." and "Expected @... to be a NamedNode";
  \<^item> \<open>MalformedDatatype\<close>: "Expected datatype to be a NamedNode, ...";
  \<^item> \<open>DatatypeMismatch\<close>: "Expected a string type, ..." and "Expected a anyURI type, ...";
  \<^item> \<open>LexicalError\<close>: an exception of the type handler's \<open>fromRdf\<close> or of
    \<open>new URL\<close>, and "Expected node to have string/number value, ...";
  \<^item> \<open>TypeMismatch\<close>: the guards of \<open>parseValue\<close>;
  \<^item> \<open>HandlerError\<close>: an exception of the type handler's \<open>toRdf\<close>;
  \<^item> \<open>InvalidConstraint\<close>: "Field should not exist for maxCount less than 1" and
    "Invalid SHACL constraint - ...";
  \<^item> \<open>UnresolvedFieldType\<close>: "Field type should be defined by now";
  \<^item> \<open>UnsupportedPath\<close>: "Path should be a NameNode";
  \<^item> \<open>MissingFieldName\<close>: "Expected field name to be defined by this point";
  \<^item> \<open>ArityError d n\<close>: "@d requires exactly one argument, received n";
  \<^item> \<open>TypeError d ty\<close>: "@d accepts only string values, received ty";
  \<^item> \<open>UnknownKey ks k\<close>: "Expected key to be one of ks; received k";
  \<^item> \<open>NotImplemented\<close>: "Not implemented - shape discovery";
  \<^item> \<open>RuntimeTypeError\<close>: the engine's own TypeError (reading a property of
    \<open>undefined\<close>, calling what is not a function).
\<close>

datatype error =
    ShapeMismatch
  | MalformedDatatype
  | DatatypeMismatch
  | LexicalError
  | TypeMismatch
  | HandlerError
  | InvalidConstraint
  | UnresolvedFieldType
  | UnsupportedPath
  | MissingFieldName
  | ArityError string nat
  | TypeError string string
  | UnknownKey "string list" string
  | NotImplemented
  | RuntimeTypeError

section \<open>The cardinality resolver (introspection/shacl/lib/index.ts)\<close>

datatype GraphQLOutputType =
    GraphQLString
  | GraphQLInt
  | GraphQLDouble
  | GraphQLDate
  | GraphQLBoolean
  | GraphQLNonNull GraphQLOutputType
  | GraphQLList GraphQLOutputType

text \<open>
  \<open>modifier(type, minCount = 0, maxCount = Infinity)\<close>: an argument that is
  \<open>undefined\<close> (\<open>None\<close>) takes its default; \<open>NaN\<close> does not.
\<close>

definition modifier ::
  "GraphQLOutputType \<Rightarrow> number option \<Rightarrow> number option \<Rightarrow> error + GraphQLOutputType" where
  "modifier ty minCountArg maxCountArg =
     (let minCount = (case minCountArg of None \<Rightarrow> Num 0 | Some n \<Rightarrow> n);
          maxCount = (case maxCountArg of None \<Rightarrow> Infinity | Some n \<Rightarrow> n)
      in if num_less maxCount (Num 1) then Inl InvalidConstraint
         else if num_less (Num 1) maxCount
           then Inr (GraphQLNonNull (GraphQLList (GraphQLNonNull ty)))
         else if num_strict_eq minCount (Num 1) then Inr (GraphQLNonNull ty)
         else if num_strict_eq minCount (Num 0) then Inr ty
         else Inl InvalidConstraint)"

section \<open>parseInt\<close>

text \<open>
  The built-in \<open>parseInt(string)\<close> with no radix: leading white space is dropped, a
  sign is read, a \<open>0x\<close> or \<open>0X\<close> prefix selects radix 16, and the longest prefix
  of digits is the value; with no digit the result is \<open>NaN\<close>. White space is
  the characters 9 to 13, 32 and 160; the white space of JavaScript above 255 is not
  represented in an 8-bit character.
\<close>

definition isWhiteSpace :: "char \<Rightarrow> bool" where
  "isWhiteSpace c = (of_char c \<in> set [9, 10, 11, 12, 13, 32, 160 :: nat])"

definition digitValue :: "char \<Rightarrow> nat option" where
  "digitValue c =
     (let n = (of_char c :: nat)
      in if 48 \<le> n \<and> n \<le> 57 then Some (n - 48)
         else if 97 \<le> n \<and> n \<le> 122 then Some (n - 87)
         else if 65 \<le> n \<and> n \<le> 90 then Some (n - 55)
         else None)"

definition isDigit :: "nat \<Rightarrow> char \<Rightarrow> bool" where
  "isDigit radix c = (case digitValue c of None \<Rightarrow> False | Some d \<Rightarrow> d < radix)"

fun digitsValue :: "nat \<Rightarrow> nat \<Rightarrow> string \<Rightarrow> nat" where
  "digitsValue radix acc [] = acc"
| "digitsValue radix acc (c # cs) =
     digitsValue radix (acc * radix + (case digitValue c of None \<Rightarrow> 0 | Some d \<Rightarrow> d)) cs"

fun stripSign :: "string \<Rightarrow> int \<times> string" where
  "stripSign [] = (1, [])"
| "stripSign (c # cs) =
     (if c = CHR ''-'' then (- 1, cs) else if c = CHR ''+'' then (1, cs) else (1, c # cs))"

fun stripPrefix :: "string \<Rightarrow> nat \<times> string" where
  "stripPrefix (a # b # cs) =
     (if a = CHR ''0'' \<and> (b = CHR ''x'' \<or> b = CHR ''X'') then (16, cs) else (10, a # b # cs))"
| "stripPrefix cs = (10, cs)"

definition parseInt :: "string \<Rightarrow> number" where
  "parseInt s =
     (let (sign, s2) = stripSign (dropWhile isWhiteSpace s);
          (radix, s3) = stripPrefix s2;
          z = takeWhile (isDigit radix) s3
      in if z = [] then NaN else Num (sign * int (digitsValue radix 0 z)))"

section \<open>The shape compiler (introspection/shacl/lib/index.ts)\<close>

text \<open>
  The type handlers come from the package rdf-literal. Their \<open>TYPES\<close> tables are
  parameters of the model.
\<close>

record TypeTables =
  TypeHandlerString_TYPES :: "string list"
  TypeHandlerNumberInteger_TYPES :: "string list"
  TypeHandlerNumberDouble_TYPES :: "string list"
  TypeHandlerDate_TYPES :: "string list"
  TypeHandlerBoolean_TYPE :: string

definition mappings :: "TypeTables \<Rightarrow> (string list \<times> GraphQLOutputType) list" where
  "mappings L =
     [(TypeHandlerString_TYPES L, GraphQLString),
      (TypeHandlerNumberInteger_TYPES L, GraphQLInt),
      (TypeHandlerNumberDouble_TYPES L, GraphQLDouble),
      (TypeHandlerDate_TYPES L, GraphQLDate),
      ([TypeHandlerBoolean_TYPE L], GraphQLBoolean)]"

fun getDatatypeIn :: "(string list \<times> GraphQLOutputType) list \<Rightarrow> string \<Rightarrow> GraphQLOutputType option" where
  "getDatatypeIn [] v = None"
| "getDatatypeIn ((types, gqlType) # rest) v =
     (if v \<in> set types then Some gqlType else getDatatypeIn rest v)"

definition getDatatype :: "TypeTables \<Rightarrow> string \<Rightarrow> GraphQLOutputType option" where
  "getDatatype L v = getDatatypeIn (mappings L) v"

definition getDatatypeSafe :: "TypeTables \<Rightarrow> Term \<Rightarrow> GraphQLOutputType option" where
  "getDatatypeSafe L t = (case t of NamedNode v \<Rightarrow> getDatatype L v | _ \<Rightarrow> None)"

text \<open>
  \<open>queryObject\<close> and \<open>queryObjects\<close> ask an external SPARQL engine. The model
  takes their answers as data: a property is the record of the eight answers read at
  the head of the inner loop, a shape the record of the four answers read at the
  head of the outer loop.
\<close>

record Property =
  path :: Term
  dataType :: "Term list"
  nodeKind :: "Term list"
  clss :: "Term list"
  name :: "Term list"
  maxCount :: "Term list"
  minCount :: "Term list"
  shDescription :: "Term list"

record Shape =
  targetClass :: "Term list"
  properties :: "Property list"
  shName :: "Term list"
  shapeDescription :: "Term list"

record PropertyInterface =
  iri :: string
  fieldType :: GraphQLOutputType
  description :: "string option"

text \<open>
  The body of the inner loop, up to the assignment. Its local variables first:
  \<open>fieldType\<close> as set from \<open>datatype\<close> (the branches for \<open>nodeKind\<close> and
  \<open>class\<close> are empty), \<open>fieldName\<close> as set from \<open>name\<close>, an argument
  \<open>xs.length > 0 ? parseInt(xs[0].value) : undefined\<close> of \<open>modifier\<close>, and
  \<open>description\<close>. \<open>camelize\<close> is imported from \<open>./utils\<close> and is a
  parameter.
\<close>

definition initialFieldType :: "TypeTables \<Rightarrow> Property \<Rightarrow> GraphQLOutputType option" where
  "initialFieldType L property =
     (case dataType property of [d] \<Rightarrow> getDatatypeSafe L d | _ \<Rightarrow> None)"

definition initialFieldName :: "(string \<Rightarrow> string) \<Rightarrow> Property \<Rightarrow> string option" where
  "initialFieldName camelize property =
     (case name property of
        [n] \<Rightarrow> (case n of Literal v dt \<Rightarrow> Some (camelize v) | _ \<Rightarrow> None)
      | _ \<Rightarrow> None)"

definition parsedCount :: "Term list \<Rightarrow> number option" where
  "parsedCount xs = (case xs of [] \<Rightarrow> None | m # ms \<Rightarrow> Some (parseInt (term_value m)))"

definition fieldDescription :: "Property \<Rightarrow> string option" where
  "fieldDescription property =
     (case shDescription property of
        [d] \<Rightarrow> (case d of Literal v dt \<Rightarrow> Some v | _ \<Rightarrow> None)
      | _ \<Rightarrow> None)"

text \<open>
  The checks in the order of the source: the field type, \<open>modifier\<close>, the path,
  the field name (\<open>!fieldName\<close> holds of \<open>undefined\<close> and of the empty string).
  The result is the key and the value of the assignment, or the first error thrown.
\<close>

definition propertyField ::
  "TypeTables \<Rightarrow> (string \<Rightarrow> string) \<Rightarrow> Property \<Rightarrow> error + (string \<times> PropertyInterface)" where
  "propertyField L camelize property =
     (case initialFieldType L property of
        None \<Rightarrow> Inl UnresolvedFieldType
      | Some ft \<Rightarrow>
          (case modifier ft (parsedCount (minCount property)) (parsedCount (maxCount property)) of
             Inl e \<Rightarrow> Inl e
           | Inr ft' \<Rightarrow>
               (case path property of
                  NamedNode p \<Rightarrow>
                    (case initialFieldName camelize property of
                       None \<Rightarrow> Inl MissingFieldName
                     | Some fn \<Rightarrow>
                         if fn = [] then Inl MissingFieldName
                         else Inr (fn,
                           \<lparr>iri = p, fieldType = ft',
                            description = fieldDescription property\<rparr>))
                | _ \<Rightarrow> Inl UnsupportedPath)))"

text \<open>
  \<open>propertyFields[fieldName] = {...}\<close> on an object created by \<open>{}\<close>. The
  association list holds the object's own properties. Assigning to the key
  \<open>__proto__\<close> calls the setter inherited from \<open>Object.prototype\<close>, which
  replaces the prototype and creates no own property; any other key is created or
  overwritten in place.
\<close>

definition assignProperty ::
  "string \<Rightarrow> PropertyInterface \<Rightarrow> (string \<times> PropertyInterface) list \<Rightarrow> (string \<times> PropertyInterface) list" where
  "assignProperty k v propertyFields =
     (if k = ''__proto__'' then propertyFields else AList.update k v propertyFields)"

fun propertiesLoop ::
  "TypeTables \<Rightarrow> (string \<Rightarrow> string) \<Rightarrow> (string \<times> PropertyInterface) list \<Rightarrow> Property list
     \<Rightarrow> error + (string \<times> PropertyInterface) list" where
  "propertiesLoop L camelize propertyFields [] = Inr propertyFields"
| "propertiesLoop L camelize propertyFields (p # ps) =
     (case propertyField L camelize p of
        Inl e \<Rightarrow> Inl e
      | Inr (fieldName, field) \<Rightarrow>
          propertiesLoop L camelize (assignProperty fieldName field propertyFields) ps)"

text \<open>
  Modelled from the spec: \<open>createObject\<close> is imported from \<open>./utils\<close>, which is
  not among the sources. The spec's Compiled Type has a name, the originating class
  if any, and the fields by name; the model keeps the four arguments of the call.
\<close>

record CompiledType =
  typeName :: string
  typeClass :: "string option"
  typeProperties :: "(string \<times> PropertyInterface) list"
  typeDescription :: "string option"

definition createObject ::
  "string \<Rightarrow> string option \<Rightarrow> (string \<times> PropertyInterface) list \<Rightarrow> string option \<Rightarrow> CompiledType" where
  "createObject n c ps d =
     \<lparr>typeName = n, typeClass = c, typeProperties = ps, typeDescription = d\<rparr>"

text \<open>
  The body of the outer loop. \<open>shName[0].value\<close> reads a property of
  \<open>undefined\<close> when the list is empty; \<open>targetClass[0]?.value\<close> and
  \<open>shDescription[0]?.value\<close> do not.
\<close>

definition shapeType :: "TypeTables \<Rightarrow> (string \<Rightarrow> string) \<Rightarrow> Shape \<Rightarrow> error + CompiledType" where
  "shapeType L camelize shape =
     (case propertiesLoop L camelize [] (properties shape) of
        Inl e \<Rightarrow> Inl e
      | Inr propertyFields \<Rightarrow>
          (case shName shape of
             [] \<Rightarrow> Inl RuntimeTypeError
           | n # ns \<Rightarrow>
               Inr (createObject (term_value n)
                      (case targetClass shape of [] \<Rightarrow> None | c # cs \<Rightarrow> Some (term_value c))
                      propertyFields
                      (case shapeDescription shape of [] \<Rightarrow> None | d # ds \<Rightarrow> Some (term_value d)))))"

fun shapesLoop ::
  "TypeTables \<Rightarrow> (string \<Rightarrow> string) \<Rightarrow> CompiledType list \<Rightarrow> Shape list \<Rightarrow> error + CompiledType list" where
  "shapesLoop L camelize types [] = Inr types"
| "shapesLoop L camelize types (s # ss) =
     (case shapeType L camelize s of
        Inl e \<Rightarrow> Inl e
      | Inr t \<Rightarrow> shapesLoop L camelize (types @ [t]) ss)"

text \<open>
  \<open>getMeshSource\<close>: the types handed to \<open>new GraphQLSchema\<close>, in the order of
  the shapes.
\<close>

definition getMeshSource ::
  "TypeTables \<Rightarrow> (string \<Rightarrow> string) \<Rightarrow> Shape list option \<Rightarrow> error + CompiledType list" where
  "getMeshSource L camelize shapes =
     (case shapes of None \<Rightarrow> Inl NotImplemented | Some ss \<Rightarrow> shapesLoop L camelize [] ss)"

section \<open>The scalar codecs (directives/linked-data/lib/scalarType/ID.ts)\<close>

text \<open>
  A type handler of rdf-literal: its static \<open>TYPES\<close>, \<open>fromRdf(literal, validate)\<close>
  and \<open>toRdf(value, {datatype})\<close>. The package is not part of the repository, so a
  handler is a parameter; \<open>None\<close> is an exception thrown by the handler.
\<close>

record TypeHandler =
  TYPES :: "string list"
  fromRdf :: "Term \<Rightarrow> bool \<Rightarrow> JSValue option"
  toRdf :: "JSValue \<Rightarrow> string option \<Rightarrow> Term option"

definition xsd_string :: string where
  "xsd_string = ''http://www.w3.org/2001/XMLSchema#string''"

definition anyURI :: string where
  "anyURI = ''http://www.w3.org/2001/XMLSchema#anyURI''"

definition string_serialize :: "TypeHandler \<Rightarrow> Term \<Rightarrow> error + JSValue" where
  "string_serialize stringHandler val =
     (case val of
        Literal v dt \<Rightarrow>
          (case dt of
             NamedNode d \<Rightarrow>
               if d \<notin> set (TYPES stringHandler) then Inl DatatypeMismatch
               else (case fromRdf stringHandler val False of
                       None \<Rightarrow> Inl LexicalError
                     | Some result \<Rightarrow>
                         if typeof result \<noteq> ''string'' then Inl LexicalError else Inr result)
           | _ \<Rightarrow> Inl MalformedDatatype)
      | _ \<Rightarrow> Inl ShapeMismatch)"

definition string_parseValue :: "TypeHandler \<Rightarrow> JSValue \<Rightarrow> error + Term" where
  "string_parseValue stringHandler val =
     (if typeof val \<noteq> ''string'' then Inl TypeMismatch
      else (case toRdf stringHandler val (Some xsd_string) of
              None \<Rightarrow> Inl HandlerError
            | Some t \<Rightarrow> Inr t))"

definition date_serialize :: "TypeHandler \<Rightarrow> Term \<Rightarrow> error + JSValue" where
  "date_serialize dateHandler val =
     (case val of
        Literal v dt \<Rightarrow>
          (case dt of
             NamedNode d \<Rightarrow>
               if d \<notin> set (TYPES dateHandler) then Inl DatatypeMismatch
               else (case fromRdf dateHandler val True of
                       None \<Rightarrow> Inl LexicalError
                     | Some result \<Rightarrow>
                         if \<not> instanceofDate result then Inl LexicalError else Inr result)
           | _ \<Rightarrow> Inl MalformedDatatype)
      | _ \<Rightarrow> Inl ShapeMismatch)"

definition date_parseValue :: "TypeHandler \<Rightarrow> JSValue \<Rightarrow> error + Term" where
  "date_parseValue dateHandler val =
     (if \<not> instanceofDate val then Inl TypeMismatch
      else (case toRdf dateHandler val None of
              None \<Rightarrow> Inl HandlerError
            | Some t \<Rightarrow> Inr t))"

text \<open>
  \<open>int\<close> and \<open>float\<close> throw when the value \<^emph>\<open>is\<close> a number
  (\<open>typeof result === 'number'\<close>), in \<open>serialize\<close> and in \<open>parseValue\<close>.
\<close>

definition int_serialize :: "TypeHandler \<Rightarrow> Term \<Rightarrow> error + JSValue" where
  "int_serialize intHandler val =
     (case val of
        Literal v dt \<Rightarrow>
          (case dt of
             NamedNode d \<Rightarrow>
               if d \<notin> set (TYPES intHandler) then Inl DatatypeMismatch
               else (case fromRdf intHandler val True of
                       None \<Rightarrow> Inl LexicalError
                     | Some result \<Rightarrow>
                         if typeof result = ''number'' then Inl LexicalError else Inr result)
           | _ \<Rightarrow> Inl MalformedDatatype)
      | _ \<Rightarrow> Inl ShapeMismatch)"

definition int_parseValue :: "TypeHandler \<Rightarrow> JSValue \<Rightarrow> error + Term" where
  "int_parseValue intHandler val =
     (if typeof val = ''number'' then Inl TypeMismatch
      else (case toRdf intHandler val None of
              None \<Rightarrow> Inl HandlerError
            | Some t \<Rightarrow> Inr t))"

definition float_serialize :: "TypeHandler \<Rightarrow> Term \<Rightarrow> error + JSValue" where
  "float_serialize doubleHandler val =
     (case val of
        Literal v dt \<Rightarrow>
          (case dt of
             NamedNode d \<Rightarrow>
               if d \<notin> set (TYPES doubleHandler) then Inl DatatypeMismatch
               else (case fromRdf doubleHandler val True of
                       None \<Rightarrow> Inl LexicalError
                     | Some result \<Rightarrow>
                         if typeof result = ''number'' then Inl LexicalError else Inr result)
           | _ \<Rightarrow> Inl MalformedDatatype)
      | _ \<Rightarrow> Inl ShapeMismatch)"

definition float_parseValue :: "TypeHandler \<Rightarrow> JSValue \<Rightarrow> error + Term" where
  "float_parseValue doubleHandler val =
     (if typeof val = ''number'' then Inl TypeMismatch
      else (case toRdf doubleHandler val None of
              None \<Rightarrow> Inl HandlerError
            | Some t \<Rightarrow> Inr t))"

text \<open>
  \<open>new URL(v)\<close> is the platform's parser, a parameter: the \<open>href\<close> of the parsed
  URL, or \<open>None\<close> when the constructor throws. The \<open>value\<close> of a term is always a
  string, so the test \<open>typeof v !== 'string'\<close> never fires.
\<close>

definition url_serialize :: "(string \<Rightarrow> string option) \<Rightarrow> Term \<Rightarrow> error + JSValue" where
  "url_serialize newURL val =
     (case val of
        Literal v dt \<Rightarrow>
          (case dt of
             NamedNode d \<Rightarrow>
               if d \<noteq> anyURI then Inl DatatypeMismatch
               else (case newURL v of
                       None \<Rightarrow> Inl LexicalError
                     | Some href \<Rightarrow> Inr (JSURL href))
           | _ \<Rightarrow> Inl MalformedDatatype)
      | _ \<Rightarrow> Inl ShapeMismatch)"

definition url_parseValue :: "JSValue \<Rightarrow> error + Term" where
  "url_parseValue val =
     (case val of
        JSURL href \<Rightarrow> Inr (Literal href (NamedNode anyURI))
      | _ \<Rightarrow> Inl TypeMismatch)"

definition ID_serialize :: "Term \<Rightarrow> error + JSValue" where
  "ID_serialize val =
     (case val of NamedNode v \<Rightarrow> Inr (JSString v) | _ \<Rightarrow> Inl ShapeMismatch)"

definition ID_parseValue :: "JSValue \<Rightarrow> error + Term" where
  "ID_parseValue val =
     (case val of JSString v \<Rightarrow> Inr (NamedNode v) | _ \<Rightarrow> Inl TypeMismatch)"

text \<open>Decoding what the encoder produced: \<open>serialize(parseValue(v))\<close>.\<close>

definition roundTrip ::
  "(JSValue \<Rightarrow> error + Term) \<Rightarrow> (Term \<Rightarrow> error + JSValue) \<Rightarrow> JSValue \<Rightarrow> error + JSValue" where
  "roundTrip parseValue serialize v =
     (case parseValue v of Inl e \<Rightarrow> Inl e | Inr t \<Rightarrow> serialize t)"

section \<open>The identifier helper (lib/directives/properties.ts)\<close>

text \<open>
  \<open>key in mapping\<close> holds of the own key \<open>iri\<close> and of every property that the
  object literal inherits from \<open>Object.prototype\<close>.
\<close>

definition mappingKeys :: "string list" where
  "mappingKeys = [''iri'']"

definition ObjectPrototypeKeys :: "string list" where
  "ObjectPrototypeKeys =
     [''constructor'', ''__defineGetter__'', ''__defineSetter__'', ''hasOwnProperty'',
      ''__lookupGetter__'', ''__lookupSetter__'', ''isPrototypeOf'',
      ''propertyIsEnumerable'', ''toString'', ''valueOf'', ''__proto__'',
      ''toLocaleString'']"

text \<open>
  \<open>mapping[key](value)\<close> for an inherited key: the member of
  \<open>Object.prototype\<close> is called on \<open>mapping\<close> with the string \<open>value\<close>.
\<close>

definition callInherited :: "string \<Rightarrow> string \<Rightarrow> error + JSValue" where
  "callInherited key v =
     (if key = ''toString'' \<or> key = ''toLocaleString'' then Inr (JSString ''[object Object]'')
      else if key = ''valueOf'' \<or> key = ''constructor'' then Inr JSObject
      else if key = ''hasOwnProperty'' \<or> key = ''propertyIsEnumerable''
        then Inr (JSBoolean (v \<in> set mappingKeys))
      else if key = ''isPrototypeOf'' then Inr (JSBoolean False)
      else if key = ''__lookupGetter__'' \<or> key = ''__lookupSetter__''
        then Inr (if v = ''__proto__'' then JSFunction else JSUndefined)
      else Inl RuntimeTypeError)"

definition nodeFromDirective ::
  "(string \<times> JSValue) list option \<Rightarrow> string \<Rightarrow> error + JSValue" where
  "nodeFromDirective directive directiveName =
     (case directive of
        None \<Rightarrow> Inl (ArityError directiveName 0)
      | Some entries \<Rightarrow>
          (case entries of
             [(key, val)] \<Rightarrow>
               (case val of
                  JSString v \<Rightarrow>
                    if key \<in> set mappingKeys then Inr (JSTerm (NamedNode v))
                    else if key \<in> set ObjectPrototypeKeys then callInherited key v
                    else Inl (UnknownKey mappingKeys key)
                | _ \<Rightarrow> Inl (TypeError directiveName (typeof val)))
           | _ \<Rightarrow> Inl (ArityError directiveName (length entries))))"

section \<open>Sample parameters\<close>

text \<open>
  Concrete parameters for evaluating the model: tables that hold the canonical XSD
  datatype of each family, and a \<open>camelize\<close> for names that are already one
  lower-case word, which camel-casing leaves as they are.
\<close>

definition xsdTables :: TypeTables where
  "xsdTables =
     \<lparr>TypeHandlerString_TYPES = [''http://www.w3.org/2001/XMLSchema#string''],
      TypeHandlerNumberInteger_TYPES = [''http://www.w3.org/2001/XMLSchema#integer''],
      TypeHandlerNumberDouble_TYPES = [''http://www.w3.org/2001/XMLSchema#double''],
      TypeHandlerDate_TYPES = [''http://www.w3.org/2001/XMLSchema#dateTime''],
      TypeHandlerBoolean_TYPE = ''http://www.w3.org/2001/XMLSchema#boolean''\<rparr>"

definition camelizeWord :: "string \<Rightarrow> string" where
  "camelizeWord s = s"

text \<open>
  A property \<open>label\<close> of datatype \<open>xsd:string\<close> that occurs exactly once, and a
  shape \<open>Person\<close> with this one property.
\<close>

definition labelProperty :: Property where
  "labelProperty =
     \<lparr>path = NamedNode ''http://example.org/label'',
      dataType = [NamedNode ''http://www.w3.org/2001/XMLSchema#string''],
      nodeKind = [],
      clss = [],
      name = [Literal ''label'' (NamedNode ''http://www.w3.org/2001/XMLSchema#string'')],
      maxCount = [Literal ''1'' (NamedNode ''http://www.w3.org/2001/XMLSchema#integer'')],
      minCount = [Literal ''1'' (NamedNode ''http://www.w3.org/2001/XMLSchema#integer'')],
      shDescription = []\<rparr>"

definition personShape :: Shape where
  "personShape =
     \<lparr>targetClass = [NamedNode ''http://example.org/Person''],
      properties = [labelProperty],
      shName = [Literal ''Person'' (NamedNode ''http://www.w3.org/2001/XMLSchema#string'')],
      shapeDescription = []\<rparr>"

text \<open>
  A type handler for evaluating the decoders: it recognises \<open>xsd:integer\<close> and
  its \<open>fromRdf\<close> and \<open>toRdf\<close> throw on every input.
\<close>

definition throwingHandler :: TypeHandler where
  "throwingHandler =
     \<lparr>TYPES = [''http://www.w3.org/2001/XMLSchema#integer''],
      fromRdf = (\<lambda>t validate. None),
      toRdf = (\<lambda>v d. None)\<rparr>"

text \<open>
  Two more handlers for evaluating the decoders: the \<open>fromRdf\<close> of the first
  returns the lexical value as a string, that of the second the number 5.
\<close>

definition textHandler :: TypeHandler where
  "textHandler =
     \<lparr>TYPES = [''http://www.w3.org/2001/XMLSchema#integer''],
      fromRdf = (\<lambda>t validate. Some (JSString (term_value t))),
      toRdf = (\<lambda>v d. None)\<rparr>"

definition numberHandler :: TypeHandler where
  "numberHandler =
     \<lparr>TYPES = [''http://www.w3.org/2001/XMLSchema#integer''],
      fromRdf = (\<lambda>t validate. Some (JSNumber (Num 5))),
      toRdf = (\<lambda>v d. None)\<rparr>"

section \<open>The cardinality resolver: properties\<close>

lemma modifier_list_absent:
  "modifier ty mn None = Inr (GraphQLNonNull (GraphQLList (GraphQLNonNull ty)))"
  by (simp add: modifier_def)

lemma modifier_list_many:
  "1 < k \<Longrightarrow>
   modifier ty mn (Some (Num k)) = Inr (GraphQLNonNull (GraphQLList (GraphQLNonNull ty)))"
  by (simp add: modifier_def)

lemma modifier_none: "k < 1 \<Longrightarrow> modifier ty mn (Some (Num k)) = Inl InvalidConstraint"
  by (simp add: modifier_def)

lemma modifier_one_other:
  "mn \<noteq> None \<Longrightarrow> mn \<noteq> Some (Num 0) \<Longrightarrow> mn \<noteq> Some (Num 1) \<Longrightarrow>
   modifier ty mn (Some (Num 1)) = Inl InvalidConstraint"
  apply (cases mn)
   apply simp
  subgoal for n by (cases n) (simp_all add: modifier_def)
  done

text \<open>
  Claim C2. The cardinality resolver on a base type and counts that are absent or
  integers: a required scalar for \<open>minCount = 1, maxCount = 1\<close>; an optional scalar
  for \<open>minCount\<close> 0 or absent and \<open>maxCount = 1\<close>; a required list of required
  elements whenever \<open>maxCount\<close> is absent or greater than 1, whatever
  \<open>minCount\<close> is; \<open>InvalidConstraint\<close> when \<open>maxCount\<close> is less than 1; and
  \<open>InvalidConstraint\<close> for every other \<open>minCount\<close> with \<open>maxCount = 1\<close>.
\<close>

theorem modifier_cardinality:
  "modifier ty (Some (Num 1)) (Some (Num 1)) = Inr (GraphQLNonNull ty)
   \<and> modifier ty (Some (Num 0)) (Some (Num 1)) = Inr ty
   \<and> modifier ty None (Some (Num 1)) = Inr ty
   \<and> (\<forall>mn. modifier ty mn None = Inr (GraphQLNonNull (GraphQLList (GraphQLNonNull ty))))
   \<and> (\<forall>mn k. 1 < k \<longrightarrow>
         modifier ty mn (Some (Num k)) = Inr (GraphQLNonNull (GraphQLList (GraphQLNonNull ty))))
   \<and> (\<forall>mn k. k < 1 \<longrightarrow> modifier ty mn (Some (Num k)) = Inl InvalidConstraint)
   \<and> (\<forall>mn. mn \<noteq> None \<longrightarrow> mn \<noteq> Some (Num 0) \<longrightarrow> mn \<noteq> Some (Num 1) \<longrightarrow>
         modifier ty mn (Some (Num 1)) = Inl InvalidConstraint)"
proof -
  have one: "modifier ty (Some (Num 1)) (Some (Num 1)) = Inr (GraphQLNonNull ty)"
    by (simp add: modifier_def)
  have zero: "modifier ty (Some (Num 0)) (Some (Num 1)) = Inr ty"
    by (simp add: modifier_def)
  have absent: "modifier ty None (Some (Num 1)) = Inr ty"
    by (simp add: modifier_def)
  from one zero absent show ?thesis
    using modifier_list_absent modifier_list_many modifier_none modifier_one_other by blast
qed

theorem modifier_cardinality_witness:
  "modifier GraphQLDate (Some (Num 1)) (Some (Num 1)) = Inr (GraphQLNonNull GraphQLDate)
   \<and> modifier GraphQLDate (Some (Num 0)) (Some (Num 1)) = Inr GraphQLDate
   \<and> modifier GraphQLDate (Some (Num 0)) (Some (Num 2))
       = Inr (GraphQLNonNull (GraphQLList (GraphQLNonNull GraphQLDate)))
   \<and> modifier GraphQLDate (Some (Num 2)) (Some (Num 5))
       = Inr (GraphQLNonNull (GraphQLList (GraphQLNonNull GraphQLDate)))
   \<and> modifier GraphQLDate (Some (Num 0)) (Some (Num 0)) = Inl InvalidConstraint
   \<and> modifier GraphQLDate (Some (Num 2)) (Some (Num 1)) = Inl InvalidConstraint"
  using modifier_cardinality [of GraphQLDate] by simp

section \<open>The shape compiler: the checks of one property\<close>

lemma modifier_error: "modifier ft mn mx = Inl e \<Longrightarrow> e = InvalidConstraint"
  by (auto simp: modifier_def Let_def split: if_splits)

lemma propertyField_unresolved:
  "initialFieldType L p = None \<Longrightarrow> propertyField L c p = Inl UnresolvedFieldType"
  by (simp add: propertyField_def)

lemma propertyField_invalid:
  assumes "initialFieldType L p = Some ft"
    and "isl (modifier ft (parsedCount (minCount p)) (parsedCount (maxCount p)))"
  shows "propertyField L c p = Inl InvalidConstraint"
proof -
  from assms(2) obtain e
    where e: "modifier ft (parsedCount (minCount p)) (parsedCount (maxCount p)) = Inl e"
    by (cases "modifier ft (parsedCount (minCount p)) (parsedCount (maxCount p))") auto
  then have "e = InvalidConstraint" by (rule modifier_error)
  with assms(1) e show ?thesis by (simp add: propertyField_def)
qed

lemma propertyField_path:
  assumes "initialFieldType L p = Some ft"
    and "\<not> isl (modifier ft (parsedCount (minCount p)) (parsedCount (maxCount p)))"
    and "\<not> isNamedNode (path p)"
  shows "propertyField L c p = Inl UnsupportedPath"
  using assms
  by (cases "modifier ft (parsedCount (minCount p)) (parsedCount (maxCount p))"; cases "path p")
     (simp_all add: propertyField_def)

lemma no_literal_name: "\<not> list_ex isLiteral (name p) \<Longrightarrow> initialFieldName c p = None"
  by (auto simp: initialFieldName_def split: list.splits Term.splits)

lemma propertyField_name:
  assumes "initialFieldType L p = Some ft"
    and "\<not> isl (modifier ft (parsedCount (minCount p)) (parsedCount (maxCount p)))"
    and "isNamedNode (path p)"
    and "initialFieldName c p = None \<or> initialFieldName c p = Some []"
  shows "propertyField L c p = Inl MissingFieldName"
  using assms
  by (cases "modifier ft (parsedCount (minCount p)) (parsedCount (maxCount p))"; cases "path p")
     (auto simp: propertyField_def)

lemma propertyField_ok:
  assumes "initialFieldType L p = Some ft"
    and "modifier ft (parsedCount (minCount p)) (parsedCount (maxCount p)) = Inr ft'"
    and "path p = NamedNode i"
    and "initialFieldName c p = Some fn" and "fn \<noteq> []"
  shows "propertyField L c p
           = Inr (fn, \<lparr>iri = i, fieldType = ft', description = fieldDescription p\<rparr>)"
  using assms by (simp add: propertyField_def)

lemma propertiesLoop_first_error:
  "list_all (\<lambda>q. \<not> isl (propertyField L c q)) as \<Longrightarrow> propertyField L c p = Inl e \<Longrightarrow>
   propertiesLoop L c fs (as @ p # bs) = Inl e"
proof (induction as arbitrary: fs)
  case Nil
  then show ?case by simp
next
  case (Cons a as)
  then show ?case by (cases "propertyField L c a") auto
qed

lemma propertiesLoop_fails:
  "p \<in> set ps \<Longrightarrow> isl (propertyField L c p) \<Longrightarrow> isl (propertiesLoop L c fs ps)"
proof (induction ps arbitrary: fs)
  case Nil
  then show ?case by simp
next
  case (Cons a ps)
  then show ?case by (cases "propertyField L c a") auto
qed

lemma shapeType_first_error:
  "properties sh = as @ p # bs \<Longrightarrow> list_all (\<lambda>q. \<not> isl (propertyField L c q)) as \<Longrightarrow>
   propertyField L c p = Inl e \<Longrightarrow> shapeType L c sh = Inl e"
  by (simp add: shapeType_def propertiesLoop_first_error)

lemma shapeType_fails:
  "p \<in> set (properties sh) \<Longrightarrow> isl (propertyField L c p) \<Longrightarrow> isl (shapeType L c sh)"
  using propertiesLoop_fails [of p "properties sh" L c "[]"]
  by (cases "propertiesLoop L c [] (properties sh)") (auto simp: shapeType_def)

text \<open>
  Claim C10. The checks of one property have a fixed precedence. A property whose
  value type does not resolve fails with \<open>UnresolvedFieldType\<close>, whatever its
  counts, path and name are. Otherwise, if the cardinality resolver fails, the
  property fails with \<open>InvalidConstraint\<close>, whatever its path and name are.
  Otherwise, if the path is not a NamedNode, it fails with \<open>UnsupportedPath\<close>,
  whatever its name is. Otherwise, if it has no name literal, it fails with
  \<open>MissingFieldName\<close>.
\<close>

theorem property_check_precedence:
  "(initialFieldType L p = None \<longrightarrow> propertyField L c p = Inl UnresolvedFieldType)
   \<and> (\<forall>ft. initialFieldType L p = Some ft \<longrightarrow>
         isl (modifier ft (parsedCount (minCount p)) (parsedCount (maxCount p))) \<longrightarrow>
         propertyField L c p = Inl InvalidConstraint)
   \<and> (\<forall>ft. initialFieldType L p = Some ft \<longrightarrow>
         \<not> isl (modifier ft (parsedCount (minCount p)) (parsedCount (maxCount p))) \<longrightarrow>
         \<not> isNamedNode (path p) \<longrightarrow>
         propertyField L c p = Inl UnsupportedPath)
   \<and> (\<forall>ft. initialFieldType L p = Some ft \<longrightarrow>
         \<not> isl (modifier ft (parsedCount (minCount p)) (parsedCount (maxCount p))) \<longrightarrow>
         isNamedNode (path p) \<longrightarrow> \<not> list_ex isLiteral (name p) \<longrightarrow>
         propertyField L c p = Inl MissingFieldName)"
  using propertyField_unresolved propertyField_invalid propertyField_path
    propertyField_name no_literal_name
  by blast


theorem property_check_precedence_witness:
  "propertyField xsdTables camelizeWord (labelProperty\<lparr>dataType := [], name := []\<rparr>)
     = Inl UnresolvedFieldType
   \<and> propertyField xsdTables camelizeWord
       (labelProperty\<lparr>maxCount := [Literal ''0'' (NamedNode [])], path := BlankNode ''b0'',
          name := []\<rparr>)
     = Inl InvalidConstraint
   \<and> propertyField xsdTables camelizeWord (labelProperty\<lparr>path := BlankNode ''b0'', name := []\<rparr>)
     = Inl UnsupportedPath
   \<and> propertyField xsdTables camelizeWord (labelProperty\<lparr>name := []\<rparr>)
     = Inl MissingFieldName"
proof -
  let ?p1 = "labelProperty\<lparr>dataType := [], name := []\<rparr>"
  let ?p2 = "labelProperty\<lparr>maxCount := [Literal ''0'' (NamedNode [])], path := BlankNode ''b0'',
               name := []\<rparr>"
  let ?p3 = "labelProperty\<lparr>path := BlankNode ''b0'', name := []\<rparr>"
  let ?p4 = "labelProperty\<lparr>name := []\<rparr>"
  have t1: "initialFieldType xsdTables ?p1 = None" by code_simp
  have t2: "initialFieldType xsdTables ?p2 = Some GraphQLString" by code_simp
  have m2: "isl (modifier GraphQLString (parsedCount (minCount ?p2)) (parsedCount (maxCount ?p2)))"
    by code_simp
  have t3: "initialFieldType xsdTables ?p3 = Some GraphQLString" by code_simp
  have m3: "\<not> isl (modifier GraphQLString (parsedCount (minCount ?p3)) (parsedCount (maxCount ?p3)))"
    by code_simp
  have n3: "\<not> isNamedNode (path ?p3)" by code_simp
  have t4: "initialFieldType xsdTables ?p4 = Some GraphQLString" by code_simp
  have m4: "\<not> isl (modifier GraphQLString (parsedCount (minCount ?p4)) (parsedCount (maxCount ?p4)))"
    by code_simp
  have n4: "isNamedNode (path ?p4)" by code_simp
  have l4: "\<not> list_ex isLiteral (name ?p4)" by code_simp
  from t1 property_check_precedence [of xsdTables ?p1 camelizeWord]
  have r1: "propertyField xsdTables camelizeWord ?p1 = Inl UnresolvedFieldType" by blast
  from t2 m2 property_check_precedence [of xsdTables ?p2 camelizeWord]
  have r2: "propertyField xsdTables camelizeWord ?p2 = Inl InvalidConstraint" by blast
  from t3 m3 n3 property_check_precedence [of xsdTables ?p3 camelizeWord]
  have r3: "propertyField xsdTables camelizeWord ?p3 = Inl UnsupportedPath" by blast
  from t4 m4 n4 l4 property_check_precedence [of xsdTables ?p4 camelizeWord]
  have r4: "propertyField xsdTables camelizeWord ?p4 = Inl MissingFieldName" by blast
  from r1 r2 r3 r4 show ?thesis by blast
qed

lemma propertyField_success_parts:
  assumes "\<not> isl (propertyField L c q)"
  shows "\<exists>ft. initialFieldType L q = Some ft
           \<and> \<not> isl (modifier ft (parsedCount (minCount q)) (parsedCount (maxCount q)))
           \<and> isNamedNode (path q)"
proof (cases "initialFieldType L q")
  case None
  with assms show ?thesis by (simp add: propertyField_unresolved)
next
  case (Some ft)
  show ?thesis
  proof (cases "isl (modifier ft (parsedCount (minCount q)) (parsedCount (maxCount q)))")
    case True
    with Some assms show ?thesis by (simp add: propertyField_invalid)
  next
    case False
    show ?thesis
    proof (cases "isNamedNode (path q)")
      case True
      with Some False show ?thesis by blast
    next
      case notNamed: False
      with Some False assms show ?thesis by (simp add: propertyField_path)
    qed
  qed
qed

lemma name_sole_defect:
  assumes "\<not> list_ex isLiteral (name p)"
    and "\<not> isl (propertyField L c (p\<lparr>name := [nm]\<rparr>))"
  shows "propertyField L c p = Inl MissingFieldName"
proof -
  from assms(2) obtain ft where
    "initialFieldType L (p\<lparr>name := [nm]\<rparr>) = Some ft"
    "\<not> isl (modifier ft (parsedCount (minCount (p\<lparr>name := [nm]\<rparr>)))
        (parsedCount (maxCount (p\<lparr>name := [nm]\<rparr>))))"
    "isNamedNode (path (p\<lparr>name := [nm]\<rparr>))"
    using propertyField_success_parts by blast
  then have "initialFieldType L p = Some ft"
    "\<not> isl (modifier ft (parsedCount (minCount p)) (parsedCount (maxCount p)))"
    "isNamedNode (path p)"
    by (simp_all add: initialFieldType_def)
  moreover from assms(1) have "initialFieldName c p = None" by (rule no_literal_name)
  ultimately show ?thesis by (simp add: propertyField_name)
qed

lemma path_sole_defect:
  assumes "\<not> isNamedNode (path p)"
    and "\<not> isl (propertyField L c (p\<lparr>path := NamedNode i\<rparr>))"
  shows "propertyField L c p = Inl UnsupportedPath"
proof -
  from assms(2) obtain ft where
    "initialFieldType L (p\<lparr>path := NamedNode i\<rparr>) = Some ft"
    "\<not> isl (modifier ft (parsedCount (minCount (p\<lparr>path := NamedNode i\<rparr>)))
        (parsedCount (maxCount (p\<lparr>path := NamedNode i\<rparr>))))"
    using propertyField_success_parts by blast
  then have "initialFieldType L p = Some ft"
    "\<not> isl (modifier ft (parsedCount (minCount p)) (parsedCount (maxCount p)))"
    by (simp_all add: initialFieldType_def)
  with assms(1) show ?thesis by (simp add: propertyField_path)
qed


text \<open>
  Claim C7. A property whose one defect is that it has no name literal (it compiles
  once a name literal is put in) fails with \<open>MissingFieldName\<close>, and a property
  whose one defect is that its path is not a NamedNode (it compiles once a NamedNode
  is put in) fails with \<open>UnsupportedPath\<close>; so does the shape, when its earlier
  properties compile. The same holds under the weaker conditions of the code: for
  the name, that the value type resolves, the cardinality is accepted and the path
  is a NamedNode; for the path, that the value type resolves and the cardinality is
  accepted. In every shape, a property of either sort yields no field: the property,
  the shape and the whole compilation fail.
\<close>

theorem missing_name_or_path:
  "(\<forall>nm as bs. \<not> list_ex isLiteral (name p) \<longrightarrow>
        \<not> isl (propertyField L c (p\<lparr>name := [nm]\<rparr>)) \<longrightarrow>
        propertyField L c p = Inl MissingFieldName
        \<and> (properties sh = as @ p # bs \<longrightarrow>
             list_all (\<lambda>q. \<not> isl (propertyField L c q)) as \<longrightarrow>
             shapeType L c sh = Inl MissingFieldName))
   \<and> (\<forall>i as bs. \<not> isNamedNode (path p) \<longrightarrow>
        \<not> isl (propertyField L c (p\<lparr>path := NamedNode i\<rparr>)) \<longrightarrow>
        propertyField L c p = Inl UnsupportedPath
        \<and> (properties sh = as @ p # bs \<longrightarrow>
             list_all (\<lambda>q. \<not> isl (propertyField L c q)) as \<longrightarrow>
             shapeType L c sh = Inl UnsupportedPath))
   \<and> (\<forall>ft as bs. properties sh = as @ p # bs \<longrightarrow>
        list_all (\<lambda>q. \<not> isl (propertyField L c q)) as \<longrightarrow>
        initialFieldType L p = Some ft \<longrightarrow>
        \<not> isl (modifier ft (parsedCount (minCount p)) (parsedCount (maxCount p))) \<longrightarrow>
        isNamedNode (path p) \<longrightarrow> \<not> list_ex isLiteral (name p) \<longrightarrow>
        propertyField L c p = Inl MissingFieldName \<and> shapeType L c sh = Inl MissingFieldName)
   \<and> (\<forall>ft as bs. properties sh = as @ p # bs \<longrightarrow>
        list_all (\<lambda>q. \<not> isl (propertyField L c q)) as \<longrightarrow>
        initialFieldType L p = Some ft \<longrightarrow>
        \<not> isl (modifier ft (parsedCount (minCount p)) (parsedCount (maxCount p))) \<longrightarrow>
        \<not> isNamedNode (path p) \<longrightarrow>
        propertyField L c p = Inl UnsupportedPath \<and> shapeType L c sh = Inl UnsupportedPath)
   \<and> (p \<in> set (properties sh) \<longrightarrow>
        \<not> list_ex isLiteral (name p) \<or> \<not> isNamedNode (path p) \<longrightarrow>
        isl (propertyField L c p) \<and> isl (shapeType L c sh)
        \<and> isl (getMeshSource L c (Some [sh])))"
proof (intro conjI allI impI)
  fix nm
  assume "\<not> list_ex isLiteral (name p)" "\<not> isl (propertyField L c (p\<lparr>name := [nm]\<rparr>))"
  then show "propertyField L c p = Inl MissingFieldName" by (rule name_sole_defect)
next
  fix nm as bs
  assume "\<not> list_ex isLiteral (name p)" "\<not> isl (propertyField L c (p\<lparr>name := [nm]\<rparr>))"
  then have e: "propertyField L c p = Inl MissingFieldName" by (rule name_sole_defect)
  assume "properties sh = as @ p # bs" "list_all (\<lambda>q. \<not> isl (propertyField L c q)) as"
  from this e show "shapeType L c sh = Inl MissingFieldName" by (rule shapeType_first_error)
next
  fix i
  assume "\<not> isNamedNode (path p)" "\<not> isl (propertyField L c (p\<lparr>path := NamedNode i\<rparr>))"
  then show "propertyField L c p = Inl UnsupportedPath" by (rule path_sole_defect)
next
  fix i as bs
  assume "\<not> isNamedNode (path p)" "\<not> isl (propertyField L c (p\<lparr>path := NamedNode i\<rparr>))"
  then have e: "propertyField L c p = Inl UnsupportedPath" by (rule path_sole_defect)
  assume "properties sh = as @ p # bs" "list_all (\<lambda>q. \<not> isl (propertyField L c q)) as"
  from this e show "shapeType L c sh = Inl UnsupportedPath" by (rule shapeType_first_error)
next
  fix ft as bs
  assume h: "properties sh = as @ p # bs" "list_all (\<lambda>q. \<not> isl (propertyField L c q)) as"
    "initialFieldType L p = Some ft"
    "\<not> isl (modifier ft (parsedCount (minCount p)) (parsedCount (maxCount p)))"
    "isNamedNode (path p)" "\<not> list_ex isLiteral (name p)"
  from h(6) have "initialFieldName c p = None" by (rule no_literal_name)
  with h(3,4,5) show e: "propertyField L c p = Inl MissingFieldName"
    by (simp add: propertyField_name)
  from h(1,2) e show "shapeType L c sh = Inl MissingFieldName"
    by (rule shapeType_first_error)
next
  fix ft as bs
  assume h: "properties sh = as @ p # bs" "list_all (\<lambda>q. \<not> isl (propertyField L c q)) as"
    "initialFieldType L p = Some ft"
    "\<not> isl (modifier ft (parsedCount (minCount p)) (parsedCount (maxCount p)))"
    "\<not> isNamedNode (path p)"
  from h(3,4,5) show e: "propertyField L c p = Inl UnsupportedPath"
    by (rule propertyField_path)
  from h(1,2) e show "shapeType L c sh = Inl UnsupportedPath"
    by (rule shapeType_first_error)
next
  assume h: "p \<in> set (properties sh)" "\<not> list_ex isLiteral (name p) \<or> \<not> isNamedNode (path p)"
  show f: "isl (propertyField L c p)"
  proof (cases "initialFieldType L p")
    case None
    then show ?thesis by (simp add: propertyField_unresolved)
  next
    case (Some ft)
    show ?thesis
    proof (cases "isl (modifier ft (parsedCount (minCount p)) (parsedCount (maxCount p)))")
      case True
      with Some show ?thesis by (simp add: propertyField_invalid)
    next
      case False
      show ?thesis
      proof (cases "isNamedNode (path p)")
        case True
        with h(2) have "initialFieldName c p = None" by (simp add: no_literal_name)
        with Some False True show ?thesis by (simp add: propertyField_name)
      next
        case notNamed: False
        with Some False show ?thesis by (simp add: propertyField_path)
      qed
    qed
  qed
  from h(1) f show s: "isl (shapeType L c sh)" by (rule shapeType_fails)
  then show "isl (getMeshSource L c (Some [sh]))"
    by (cases "shapeType L c sh") (simp_all add: getMeshSource_def)
qed

theorem missing_name_or_path_witness:
  "propertyField xsdTables camelizeWord (labelProperty\<lparr>name := []\<rparr>) = Inl MissingFieldName
   \<and> shapeType xsdTables camelizeWord (personShape\<lparr>properties := [labelProperty\<lparr>name := []\<rparr>]\<rparr>)
     = Inl MissingFieldName
   \<and> propertyField xsdTables camelizeWord (labelProperty\<lparr>path := BlankNode ''b0''\<rparr>)
     = Inl UnsupportedPath
   \<and> shapeType xsdTables camelizeWord
       (personShape\<lparr>properties := [labelProperty, labelProperty\<lparr>path := BlankNode ''b0''\<rparr>]\<rparr>)
     = Inl UnsupportedPath
   \<and> isl (getMeshSource xsdTables camelizeWord
        (Some [personShape\<lparr>properties := [labelProperty\<lparr>name := []\<rparr>]\<rparr>]))"
proof -
  let ?nm = "Literal ''label'' (NamedNode ''http://www.w3.org/2001/XMLSchema#string'')"
  let ?p1 = "labelProperty\<lparr>name := []\<rparr>"
  let ?s1 = "personShape\<lparr>properties := [?p1]\<rparr>"
  let ?p2 = "labelProperty\<lparr>path := BlankNode ''b0''\<rparr>"
  let ?s2 = "personShape\<lparr>properties := [labelProperty, ?p2]\<rparr>"
  have a1: "properties ?s1 = [] @ ?p1 # []" by simp
  have b1: "list_all (\<lambda>q. \<not> isl (propertyField xsdTables camelizeWord q)) []" by simp
  have l1: "\<not> list_ex isLiteral (name ?p1)" by code_simp
  have c1: "\<not> isl (propertyField xsdTables camelizeWord (?p1\<lparr>name := [?nm]\<rparr>))" by code_simp
  have i1: "?p1 \<in> set (properties ?s1)" by simp
  have a2: "properties ?s2 = [labelProperty] @ ?p2 # []" by simp
  have b2: "list_all (\<lambda>q. \<not> isl (propertyField xsdTables camelizeWord q)) [labelProperty]"
    by code_simp
  have n2: "\<not> isNamedNode (path ?p2)" by code_simp
  have c2: "\<not> isl (propertyField xsdTables camelizeWord
      (?p2\<lparr>path := NamedNode ''http://example.org/label''\<rparr>))" by code_simp
  have t1: "initialFieldType xsdTables ?p1 = Some GraphQLString" by code_simp
  have m1: "\<not> isl (modifier GraphQLString (parsedCount (minCount ?p1)) (parsedCount (maxCount ?p1)))"
    by code_simp
  have n1: "isNamedNode (path ?p1)" by code_simp
  from l1 c1 a1 b1 missing_name_or_path [of ?p1 xsdTables camelizeWord ?s1]
  have r1: "propertyField xsdTables camelizeWord ?p1 = Inl MissingFieldName"
    and r2: "shapeType xsdTables camelizeWord ?s1 = Inl MissingFieldName"
    by blast+
  from n2 c2 a2 b2 missing_name_or_path [of ?p2 xsdTables camelizeWord ?s2]
  have r3: "propertyField xsdTables camelizeWord ?p2 = Inl UnsupportedPath"
    and r4: "shapeType xsdTables camelizeWord ?s2 = Inl UnsupportedPath"
    by blast+
  from a1 b1 t1 m1 n1 l1 missing_name_or_path [of ?p1 xsdTables camelizeWord ?s1]
  have r2': "shapeType xsdTables camelizeWord ?s1 = Inl MissingFieldName" by blast
  from i1 l1 missing_name_or_path [of ?p1 xsdTables camelizeWord ?s1]
  have r5: "isl (getMeshSource xsdTables camelizeWord (Some [?s1]))" by blast
  from r1 r2 r3 r4 r5 show ?thesis by blast
qed

section \<open>The shape compiler: count literals that do not parse\<close>

lemma propertyField_minCount_unused:
  assumes "modifier ft (parsedCount (minCount p)) (parsedCount (maxCount p))
             = modifier ft None (parsedCount (maxCount p))"
    and "initialFieldType L p = Some ft"
  shows "propertyField L c p = propertyField L c (p\<lparr>minCount := []\<rparr>)"
proof -
  have a: "initialFieldType L (p\<lparr>minCount := []\<rparr>) = initialFieldType L p"
    by (simp add: initialFieldType_def)
  have b: "initialFieldName c (p\<lparr>minCount := []\<rparr>) = initialFieldName c p"
    by (simp add: initialFieldName_def)
  have d: "fieldDescription (p\<lparr>minCount := []\<rparr>) = fieldDescription p"
    by (simp add: fieldDescription_def)
  have e: "parsedCount (minCount (p\<lparr>minCount := []\<rparr>)) = None"
    by (simp add: parsedCount_def)
  have f: "maxCount (p\<lparr>minCount := []\<rparr>) = maxCount p" "path (p\<lparr>minCount := []\<rparr>) = path p"
    by simp_all
  show ?thesis
    unfolding propertyField_def a b d e f using assms by simp
qed

lemma propertyField_after_modifier:
  assumes "initialFieldType L p = Some ft"
    and "modifier ft (parsedCount (minCount p)) (parsedCount (maxCount p)) = Inr ft'"
  shows "propertyField L c p \<noteq> Inl InvalidConstraint"
  using assms
  by (cases "path p"; cases "initialFieldName c p") (simp_all add: propertyField_def)

text \<open>
  Claim C3, as the code has it. Take a property whose value type resolves and whose
  \<open>minCount\<close> literal does not parse (\<open>parseInt\<close> yields \<open>NaN\<close>). If
  \<open>maxCount\<close> is present and parses to an integer of at most 1, the property
  fails with \<open>InvalidConstraint\<close>, and so does the shape when its earlier
  properties compile. If \<open>maxCount\<close> is absent or parses to an integer greater
  than 1, the \<open>minCount\<close> literal is not examined: the property compiles to what it
  compiles to without \<open>minCount\<close>, which is never \<open>InvalidConstraint\<close>.
  Nothing is said of a \<open>maxCount\<close> literal that does not parse.
\<close>

theorem unparsable_minCount:
  "initialFieldType L p = Some ft \<longrightarrow> parsedCount (minCount p) = Some NaN \<longrightarrow>
     (\<forall>k. parsedCount (maxCount p) = Some (Num k) \<longrightarrow> k \<le> 1 \<longrightarrow>
        propertyField L c p = Inl InvalidConstraint
        \<and> (\<forall>sh as bs. properties sh = as @ p # bs \<longrightarrow>
              list_all (\<lambda>q. \<not> isl (propertyField L c q)) as \<longrightarrow>
              shapeType L c sh = Inl InvalidConstraint))
     \<and> (parsedCount (maxCount p) = None
          \<or> (\<exists>k. 1 < k \<and> parsedCount (maxCount p) = Some (Num k)) \<longrightarrow>
        propertyField L c p = propertyField L c (p\<lparr>minCount := []\<rparr>)
        \<and> propertyField L c p \<noteq> Inl InvalidConstraint)"
proof (intro impI conjI allI)
  fix k
  assume t: "initialFieldType L p = Some ft" and mn: "parsedCount (minCount p) = Some NaN"
    and mx: "parsedCount (maxCount p) = Some (Num k)" and k: "k \<le> 1"
  from k have "modifier ft (Some NaN) (Some (Num k)) = Inl InvalidConstraint"
    by (cases "k < 1") (simp_all add: modifier_def)
  with t mn mx show "propertyField L c p = Inl InvalidConstraint"
    by (simp add: propertyField_invalid)
next
  fix k and sh :: Shape and as bs
  assume t: "initialFieldType L p = Some ft" and mn: "parsedCount (minCount p) = Some NaN"
    and mx: "parsedCount (maxCount p) = Some (Num k)" and k: "k \<le> 1"
    and sh: "properties sh = as @ p # bs" "list_all (\<lambda>q. \<not> isl (propertyField L c q)) as"
  from k have "modifier ft (Some NaN) (Some (Num k)) = Inl InvalidConstraint"
    by (cases "k < 1") (simp_all add: modifier_def)
  with t mn mx have "propertyField L c p = Inl InvalidConstraint"
    by (simp add: propertyField_invalid)
  with sh show "shapeType L c sh = Inl InvalidConstraint" by (rule shapeType_first_error)
next
  assume t: "initialFieldType L p = Some ft" and mn: "parsedCount (minCount p) = Some NaN"
    and mx: "parsedCount (maxCount p) = None
      \<or> (\<exists>k. 1 < k \<and> parsedCount (maxCount p) = Some (Num k))"
  let ?list = "GraphQLNonNull (GraphQLList (GraphQLNonNull ft))"
  from mx have m: "modifier ft (parsedCount (minCount p)) (parsedCount (maxCount p)) = Inr ?list"
    and m': "modifier ft None (parsedCount (maxCount p)) = Inr ?list"
    by (auto simp: modifier_list_absent modifier_list_many)
  from m m' have "modifier ft (parsedCount (minCount p)) (parsedCount (maxCount p))
      = modifier ft None (parsedCount (maxCount p))" by simp
  from this t show "propertyField L c p = propertyField L c (p\<lparr>minCount := []\<rparr>)"
    by (rule propertyField_minCount_unused)
next
  assume t: "initialFieldType L p = Some ft" and mn: "parsedCount (minCount p) = Some NaN"
    and mx: "parsedCount (maxCount p) = None
      \<or> (\<exists>k. 1 < k \<and> parsedCount (maxCount p) = Some (Num k))"
  let ?list = "GraphQLNonNull (GraphQLList (GraphQLNonNull ft))"
  from mx have m: "modifier ft (parsedCount (minCount p)) (parsedCount (maxCount p)) = Inr ?list"
    by (auto simp: modifier_list_absent modifier_list_many)
  from t m show "propertyField L c p \<noteq> Inl InvalidConstraint"
    by (rule propertyField_after_modifier)
qed

theorem unparsable_minCount_witness:
  "propertyField xsdTables camelizeWord
     (labelProperty\<lparr>minCount := [Literal ''abc'' (NamedNode [])]\<rparr>) = Inl InvalidConstraint
   \<and> shapeType xsdTables camelizeWord
       (personShape\<lparr>properties := [labelProperty\<lparr>minCount := [Literal ''abc'' (NamedNode [])]\<rparr>]\<rparr>)
     = Inl InvalidConstraint
   \<and> propertyField xsdTables camelizeWord
       (labelProperty\<lparr>minCount := [Literal ''abc'' (NamedNode [])], maxCount := []\<rparr>)
     = propertyField xsdTables camelizeWord
       (labelProperty\<lparr>minCount := [Literal ''abc'' (NamedNode [])], maxCount := [], minCount := []\<rparr>)
   \<and> propertyField xsdTables camelizeWord
       (labelProperty\<lparr>minCount := [Literal ''abc'' (NamedNode [])], maxCount := []\<rparr>)
     \<noteq> Inl InvalidConstraint"
proof -
  let ?p1 = "labelProperty\<lparr>minCount := [Literal ''abc'' (NamedNode [])]\<rparr>"
  let ?s1 = "personShape\<lparr>properties := [?p1]\<rparr>"
  let ?p2 = "labelProperty\<lparr>minCount := [Literal ''abc'' (NamedNode [])], maxCount := []\<rparr>"
  have t1: "initialFieldType xsdTables ?p1 = Some GraphQLString" by code_simp
  have n1: "parsedCount (minCount ?p1) = Some NaN" by code_simp
  have x1: "parsedCount (maxCount ?p1) = Some (Num 1)" by code_simp
  have k1: "(1::int) \<le> 1" by simp
  have a1: "properties ?s1 = [] @ ?p1 # []" by simp
  have b1: "list_all (\<lambda>q. \<not> isl (propertyField xsdTables camelizeWord q)) []" by simp
  have t2: "initialFieldType xsdTables ?p2 = Some GraphQLString" by code_simp
  have n2: "parsedCount (minCount ?p2) = Some NaN" by code_simp
  have x2: "parsedCount (maxCount ?p2) = None" by code_simp
  from t1 n1 x1 k1 a1 b1 unparsable_minCount [of xsdTables ?p1 GraphQLString camelizeWord]
  have r1: "propertyField xsdTables camelizeWord ?p1 = Inl InvalidConstraint
    \<and> shapeType xsdTables camelizeWord ?s1 = Inl InvalidConstraint" by blast
  from t2 n2 x2 unparsable_minCount [of xsdTables ?p2 GraphQLString camelizeWord]
  have r2: "propertyField xsdTables camelizeWord ?p2
      = propertyField xsdTables camelizeWord (?p2\<lparr>minCount := []\<rparr>)
    \<and> propertyField xsdTables camelizeWord ?p2 \<noteq> Inl InvalidConstraint" by blast
  from r1 r2 show ?thesis by blast
qed

text \<open>
  Claim C3 as first stated does not hold: with \<open>minCount\<close> \<open>abc\<close> and
  \<open>maxCount\<close> \<open>5\<close> the shape compiles, to a required list of required strings.
\<close>

theorem unparsable_minCount_counterexample:
  "parsedCount (minCount (labelProperty\<lparr>minCount := [Literal ''abc'' (NamedNode [])],
        maxCount := [Literal ''5'' (NamedNode [])]\<rparr>)) = Some NaN
   \<and> getMeshSource xsdTables camelizeWord
       (Some [personShape\<lparr>properties :=
          [labelProperty\<lparr>minCount := [Literal ''abc'' (NamedNode [])],
             maxCount := [Literal ''5'' (NamedNode [])]\<rparr>]\<rparr>])
     = Inr [\<lparr>typeName = ''Person'', typeClass = Some ''http://example.org/Person'',
             typeProperties =
               [(''label'',
                 \<lparr>iri = ''http://example.org/label'',
                  fieldType = GraphQLNonNull (GraphQLList (GraphQLNonNull GraphQLString)),
                  description = None\<rparr>)],
             typeDescription = None\<rparr>]"
  by code_simp

text \<open>
  A \<open>maxCount\<close> literal that does not parse passes both tests on \<open>maxCount\<close>
  (\<open>NaN < 1\<close> and \<open>NaN > 1\<close> are false) and reaches the tests on
  \<open>minCount\<close>: with \<open>minCount\<close> 1 the field is a required scalar.
\<close>

lemma unparsable_maxCount_example:
  "propertyField xsdTables camelizeWord
     (labelProperty\<lparr>maxCount := [Literal ''abc'' (NamedNode [])]\<rparr>)
   = Inr (''label'',
       \<lparr>iri = ''http://example.org/label'', fieldType = GraphQLNonNull GraphQLString,
        description = None\<rparr>)"
  by code_simp

section \<open>The shape compiler: two properties with one field name\<close>

lemma propertiesLoop_append:
  "propertiesLoop L c fs (ps @ qs)
     = (case propertiesLoop L c fs ps of Inl e \<Rightarrow> Inl e | Inr fs' \<Rightarrow> propertiesLoop L c fs' qs)"
  by (induction ps arbitrary: fs) (auto split: sum.splits prod.splits)

lemma propertiesLoop_succeeds:
  "list_all (\<lambda>q. \<not> isl (propertyField L c q)) ps \<Longrightarrow> \<exists>fs'. propertiesLoop L c fs ps = Inr fs'"
proof (induction ps arbitrary: fs)
  case Nil
  then show ?case by simp
next
  case (Cons a ps)
  then show ?case by (cases "propertyField L c a") auto
qed

lemma assignProperty_distinct:
  "distinct (map fst fs) \<Longrightarrow> distinct (map fst (assignProperty k v fs))"
  by (simp add: assignProperty_def distinct_update)

lemma propertiesLoop_distinct:
  "propertiesLoop L c fs ps = Inr fs' \<Longrightarrow> distinct (map fst fs) \<Longrightarrow> distinct (map fst fs')"
proof (induction ps arbitrary: fs)
  case Nil
  then show ?case by simp
next
  case (Cons a ps)
  then show ?case
    by (cases "propertyField L c a") (auto simp: assignProperty_distinct)
qed

lemma assignProperty_other: "k \<noteq> n \<Longrightarrow> map_of (assignProperty k v fs) n = map_of fs n"
  by (simp add: assignProperty_def update_conv')

lemma assignProperty_same:
  "n \<noteq> ''__proto__'' \<Longrightarrow> map_of (assignProperty n v fs) n = Some v"
  by (simp add: assignProperty_def update_conv')

lemma propertiesLoop_other_names:
  "propertiesLoop L c fs ps = Inr fs' \<Longrightarrow>
   list_all (\<lambda>q. \<forall>g. propertyField L c q \<noteq> Inr (n, g)) ps \<Longrightarrow>
   map_of fs' n = map_of fs n"
proof (induction ps arbitrary: fs)
  case Nil
  then show ?case by simp
next
  case (Cons a ps)
  show ?case
  proof (cases "propertyField L c a")
    case (Inl e)
    with Cons.prems show ?thesis by simp
  next
    case (Inr r)
    obtain k f where r: "r = (k, f)" by (cases r)
    with Inr Cons.prems(2) have "k \<noteq> n" by auto
    moreover from Inr r Cons.prems(1)
    have "propertiesLoop L c (assignProperty k f fs) ps = Inr fs'" by simp
    moreover from Cons.prems(2)
    have "list_all (\<lambda>q. \<forall>g. propertyField L c q \<noteq> Inr (n, g)) ps" by simp
    ultimately show ?thesis using Cons.IH by (simp add: assignProperty_other)
  qed
qed

lemma one_entry:
  "distinct (map fst xs) \<Longrightarrow> map_of xs n = Some v \<Longrightarrow> length (filter (\<lambda>e. fst e = n) xs) = 1"
proof (induction xs)
  case Nil
  then show ?case by simp
next
  case (Cons x xs)
  show ?case
  proof (cases "fst x = n")
    case True
    with Cons.prems(1) have "n \<notin> fst ` set xs" by auto
    then have "filter (\<lambda>e. fst e = n) xs = []" by (auto simp: filter_empty_conv)
    with True show ?thesis by simp
  next
    case False
    with Cons show ?thesis by (cases x) auto
  qed
qed

text \<open>
  Claim C6. Let a shape have a name and properties that all compile, among them
  \<open>p1\<close> and, later, \<open>p2\<close>, both with the field name \<open>n\<close>, and no property
  after \<open>p2\<close> with that field name. Then the shape compiles, the compiled type
  has exactly one field under \<open>n\<close>, and it is the field of \<open>p2\<close>. The name
  \<open>n\<close> is any key that an assignment stores, that is, any but \<open>__proto__\<close>
  (which is no name of a GraphQL field: names that begin with two underscores are
  reserved).
\<close>

theorem duplicate_field_name_last_wins:
  assumes props: "properties sh = as @ p1 # bs @ p2 # cs"
    and ok: "list_all (\<lambda>q. \<not> isl (propertyField L c q)) (properties sh)"
    and p1: "propertyField L c p1 = Inr (n, f1)"
    and p2: "propertyField L c p2 = Inr (n, f2)"
    and later: "list_all (\<lambda>q. \<forall>g. propertyField L c q \<noteq> Inr (n, g)) cs"
    and n: "n \<noteq> ''__proto__''"
    and shName: "shName sh = t # ts"
  shows "\<exists>ty. shapeType L c sh = Inr ty
           \<and> length (filter (\<lambda>e. fst e = n) (typeProperties ty)) = 1
           \<and> map_of (typeProperties ty) n = Some f2"
proof -
  from ok props have "list_all (\<lambda>q. \<not> isl (propertyField L c q)) (as @ p1 # bs)" by simp
  then obtain fsA where A: "propertiesLoop L c [] (as @ p1 # bs) = Inr fsA"
    using propertiesLoop_succeeds by blast
  from ok props have "list_all (\<lambda>q. \<not> isl (propertyField L c q)) cs" by simp
  then obtain fs' where C: "propertiesLoop L c (assignProperty n f2 fsA) cs = Inr fs'"
    using propertiesLoop_succeeds by blast
  have "properties sh = (as @ p1 # bs) @ p2 # cs" using props by simp
  then have all: "propertiesLoop L c [] (properties sh) = Inr fs'"
    using A C p2 by (simp only: propertiesLoop_append) simp
  from C later have "map_of fs' n = map_of (assignProperty n f2 fsA) n"
    by (rule propertiesLoop_other_names)
  with n have m: "map_of fs' n = Some f2" by (simp add: assignProperty_same)
  from all have "distinct (map fst fs')" by (rule propertiesLoop_distinct) simp
  from this m have one: "length (filter (\<lambda>e. fst e = n) fs') = 1" by (rule one_entry)
  from all shName m one show ?thesis by (simp add: shapeType_def createObject_def)
qed


theorem duplicate_field_name_last_wins_witness:
  "\<exists>ty. shapeType xsdTables camelizeWord
          (personShape\<lparr>properties :=
             [labelProperty,
              labelProperty\<lparr>path := NamedNode ''http://example.org/name'', minCount := []\<rparr>,
              labelProperty\<lparr>name := [Literal ''title'' (NamedNode [])]\<rparr>]\<rparr>) = Inr ty
        \<and> length (filter (\<lambda>e. fst e = ''label'') (typeProperties ty)) = 1
        \<and> map_of (typeProperties ty) ''label''
            = Some \<lparr>iri = ''http://example.org/name'', fieldType = GraphQLString,
                description = None\<rparr>"
proof -
  let ?p2 = "labelProperty\<lparr>path := NamedNode ''http://example.org/name'', minCount := []\<rparr>"
  let ?q = "labelProperty\<lparr>name := [Literal ''title'' (NamedNode [])]\<rparr>"
  let ?sh = "personShape\<lparr>properties := [labelProperty, ?p2, ?q]\<rparr>"
  have props: "properties ?sh = [] @ labelProperty # [] @ ?p2 # [?q]" by simp
  have ok: "list_all (\<lambda>q. \<not> isl (propertyField xsdTables camelizeWord q)) (properties ?sh)"
    by code_simp
  have p1: "propertyField xsdTables camelizeWord labelProperty
      = Inr (''label'', \<lparr>iri = ''http://example.org/label'',
          fieldType = GraphQLNonNull GraphQLString, description = None\<rparr>)"
    by code_simp
  have p2: "propertyField xsdTables camelizeWord ?p2
      = Inr (''label'', \<lparr>iri = ''http://example.org/name'', fieldType = GraphQLString,
          description = None\<rparr>)"
    by code_simp
  have q: "propertyField xsdTables camelizeWord ?q
      = Inr (''title'', \<lparr>iri = ''http://example.org/label'',
          fieldType = GraphQLNonNull GraphQLString, description = None\<rparr>)"
    by code_simp
  have later: "list_all (\<lambda>q. \<forall>g. propertyField xsdTables camelizeWord q \<noteq> Inr (''label'', g)) [?q]"
    by (simp add: q)
  have n: "''label'' \<noteq> ''__proto__''" by simp
  have shName: "shName ?sh
      = Literal ''Person'' (NamedNode ''http://www.w3.org/2001/XMLSchema#string'') # []"
    by (simp add: personShape_def)
  from duplicate_field_name_last_wins [OF props ok p1 p2 later n shName]
  show ?thesis .
qed

section \<open>The scalar codecs: the order of the checks of a decoder\<close>

lemma string_serialize_kind:
  "\<not> isLiteral t \<Longrightarrow> string_serialize h t = Inl ShapeMismatch"
  by (cases t) (simp_all add: string_serialize_def)

lemma string_serialize_malformed:
  "\<not> isNamedNode dt \<Longrightarrow> string_serialize h (Literal v dt) = Inl MalformedDatatype"
  by (cases dt) (simp_all add: string_serialize_def)

lemma string_serialize_datatype:
  "d \<notin> set (TYPES h) \<Longrightarrow> string_serialize h (Literal v (NamedNode d)) = Inl DatatypeMismatch"
  by (simp add: string_serialize_def)

lemma string_serialize_lexical:
  "string_serialize h t = Inl LexicalError \<Longrightarrow>
   \<exists>v d. t = Literal v (NamedNode d) \<and> d \<in> set (TYPES h)"
  by (auto simp: string_serialize_def split: Term.splits if_splits)

lemma date_serialize_kind:
  "\<not> isLiteral t \<Longrightarrow> date_serialize h t = Inl ShapeMismatch"
  by (cases t) (simp_all add: date_serialize_def)

lemma date_serialize_malformed:
  "\<not> isNamedNode dt \<Longrightarrow> date_serialize h (Literal v dt) = Inl MalformedDatatype"
  by (cases dt) (simp_all add: date_serialize_def)

lemma date_serialize_datatype:
  "d \<notin> set (TYPES h) \<Longrightarrow> date_serialize h (Literal v (NamedNode d)) = Inl DatatypeMismatch"
  by (simp add: date_serialize_def)

lemma date_serialize_lexical:
  "date_serialize h t = Inl LexicalError \<Longrightarrow>
   \<exists>v d. t = Literal v (NamedNode d) \<and> d \<in> set (TYPES h)"
  by (auto simp: date_serialize_def split: Term.splits if_splits)

lemma int_serialize_kind:
  "\<not> isLiteral t \<Longrightarrow> int_serialize h t = Inl ShapeMismatch"
  by (cases t) (simp_all add: int_serialize_def)

lemma int_serialize_malformed:
  "\<not> isNamedNode dt \<Longrightarrow> int_serialize h (Literal v dt) = Inl MalformedDatatype"
  by (cases dt) (simp_all add: int_serialize_def)

lemma int_serialize_datatype:
  "d \<notin> set (TYPES h) \<Longrightarrow> int_serialize h (Literal v (NamedNode d)) = Inl DatatypeMismatch"
  by (simp add: int_serialize_def)

lemma int_serialize_lexical:
  "int_serialize h t = Inl LexicalError \<Longrightarrow>
   \<exists>v d. t = Literal v (NamedNode d) \<and> d \<in> set (TYPES h)"
  by (auto simp: int_serialize_def split: Term.splits if_splits)

lemma float_serialize_kind:
  "\<not> isLiteral t \<Longrightarrow> float_serialize h t = Inl ShapeMismatch"
  by (cases t) (simp_all add: float_serialize_def)

lemma float_serialize_malformed:
  "\<not> isNamedNode dt \<Longrightarrow> float_serialize h (Literal v dt) = Inl MalformedDatatype"
  by (cases dt) (simp_all add: float_serialize_def)

lemma float_serialize_datatype:
  "d \<notin> set (TYPES h) \<Longrightarrow> float_serialize h (Literal v (NamedNode d)) = Inl DatatypeMismatch"
  by (simp add: float_serialize_def)

lemma float_serialize_lexical:
  "float_serialize h t = Inl LexicalError \<Longrightarrow>
   \<exists>v d. t = Literal v (NamedNode d) \<and> d \<in> set (TYPES h)"
  by (auto simp: float_serialize_def split: Term.splits if_splits)

lemma url_serialize_kind:
  "\<not> isLiteral t \<Longrightarrow> url_serialize newURL t = Inl ShapeMismatch"
  by (cases t) (simp_all add: url_serialize_def)

lemma url_serialize_malformed:
  "\<not> isNamedNode dt \<Longrightarrow> url_serialize newURL (Literal v dt) = Inl MalformedDatatype"
  by (cases dt) (simp_all add: url_serialize_def)

lemma url_serialize_datatype:
  "d \<noteq> anyURI \<Longrightarrow> url_serialize newURL (Literal v (NamedNode d)) = Inl DatatypeMismatch"
  by (simp add: url_serialize_def)

lemma url_serialize_lexical:
  "url_serialize newURL t = Inl LexicalError \<Longrightarrow> \<exists>v. t = Literal v (NamedNode anyURI)"
  by (auto simp: url_serialize_def split: Term.splits if_splits)

lemma ID_serialize_kind: "\<not> isNamedNode t \<Longrightarrow> ID_serialize t = Inl ShapeMismatch"
  by (cases t) (simp_all add: ID_serialize_def)

lemma ID_serialize_NamedNode: "ID_serialize (NamedNode v) = Inr (JSString v)"
  by (simp add: ID_serialize_def)

lemma string_serialize_value:
  "d \<in> set (TYPES h) \<Longrightarrow>
   string_serialize h (Literal v (NamedNode d))
     = (case fromRdf h (Literal v (NamedNode d)) False of
          None \<Rightarrow> Inl LexicalError
        | Some r \<Rightarrow> if typeof r = ''string'' then Inr r else Inl LexicalError)"
  by (simp add: string_serialize_def split: option.splits)

lemma date_serialize_value:
  "d \<in> set (TYPES h) \<Longrightarrow>
   date_serialize h (Literal v (NamedNode d))
     = (case fromRdf h (Literal v (NamedNode d)) True of
          None \<Rightarrow> Inl LexicalError
        | Some r \<Rightarrow> if instanceofDate r then Inr r else Inl LexicalError)"
  by (simp add: date_serialize_def split: option.splits)

lemma int_serialize_value:
  "d \<in> set (TYPES h) \<Longrightarrow>
   int_serialize h (Literal v (NamedNode d))
     = (case fromRdf h (Literal v (NamedNode d)) True of
          None \<Rightarrow> Inl LexicalError
        | Some r \<Rightarrow> if typeof r = ''number'' then Inl LexicalError else Inr r)"
  by (simp add: int_serialize_def split: option.splits)

lemma float_serialize_value:
  "d \<in> set (TYPES h) \<Longrightarrow>
   float_serialize h (Literal v (NamedNode d))
     = (case fromRdf h (Literal v (NamedNode d)) True of
          None \<Rightarrow> Inl LexicalError
        | Some r \<Rightarrow> if typeof r = ''number'' then Inl LexicalError else Inr r)"
  by (simp add: float_serialize_def split: option.splits)

lemma url_serialize_value:
  "url_serialize newURL (Literal v (NamedNode anyURI))
     = (case newURL v of None \<Rightarrow> Inl LexicalError | Some href \<Rightarrow> Inr (JSURL href))"
  by (simp add: url_serialize_def)

text \<open>
  Claim C4. Every decoder checks the kind of the term first, then the datatype, then
  the value, and stops at the first check that fails, each with its own error.
  \<^item> A term that is not a literal gives \<open>ShapeMismatch\<close> (for \<open>ID\<close>: a term
    that is not a NamedNode; \<open>ID\<close> has no further check and returns the value of
    a NamedNode).
  \<^item> A literal whose datatype is not a NamedNode gives \<open>MalformedDatatype\<close>.
  \<^item> A literal whose datatype is not one of the family's gives
    \<open>DatatypeMismatch\<close>, whatever its lexical value and whatever the handler would
    make of it.
  \<^item> A literal whose datatype is one of the family's reaches the check of the
    value: it gives \<open>LexicalError\<close> when the handler's \<open>fromRdf\<close> (for
    \<open>url\<close>: \<open>new URL\<close>) throws and when the test of the result fails, and the
    result otherwise. The test of the result is \<open>typeof result !== 'string'\<close> for
    \<open>string\<close>, \<open>!(result instanceof Date)\<close> for \<open>date\<close>, and
    \<open>typeof result === 'number'\<close> for \<open>int\<close> and \<open>float\<close>.
  \<^item> \<open>LexicalError\<close> is given to no other term.
\<close>

theorem decode_check_order:
  "(\<not> isLiteral t \<longrightarrow>
      string_serialize h t = Inl ShapeMismatch \<and> date_serialize h t = Inl ShapeMismatch
      \<and> int_serialize h t = Inl ShapeMismatch \<and> float_serialize h t = Inl ShapeMismatch
      \<and> url_serialize newURL t = Inl ShapeMismatch)
   \<and> (\<not> isNamedNode t \<longrightarrow> ID_serialize t = Inl ShapeMismatch)
   \<and> (\<not> isNamedNode dt \<longrightarrow>
      string_serialize h (Literal v dt) = Inl MalformedDatatype
      \<and> date_serialize h (Literal v dt) = Inl MalformedDatatype
      \<and> int_serialize h (Literal v dt) = Inl MalformedDatatype
      \<and> float_serialize h (Literal v dt) = Inl MalformedDatatype
      \<and> url_serialize newURL (Literal v dt) = Inl MalformedDatatype)
   \<and> (d \<notin> set (TYPES h) \<longrightarrow>
      string_serialize h (Literal v (NamedNode d)) = Inl DatatypeMismatch
      \<and> date_serialize h (Literal v (NamedNode d)) = Inl DatatypeMismatch
      \<and> int_serialize h (Literal v (NamedNode d)) = Inl DatatypeMismatch
      \<and> float_serialize h (Literal v (NamedNode d)) = Inl DatatypeMismatch)
   \<and> (d \<noteq> anyURI \<longrightarrow> url_serialize newURL (Literal v (NamedNode d)) = Inl DatatypeMismatch)
   \<and> (d \<in> set (TYPES h) \<longrightarrow> fromRdf h (Literal v (NamedNode d)) False = None \<longrightarrow>
      string_serialize h (Literal v (NamedNode d)) = Inl LexicalError)
   \<and> (d \<in> set (TYPES h) \<longrightarrow> fromRdf h (Literal v (NamedNode d)) True = None \<longrightarrow>
      date_serialize h (Literal v (NamedNode d)) = Inl LexicalError
      \<and> int_serialize h (Literal v (NamedNode d)) = Inl LexicalError
      \<and> float_serialize h (Literal v (NamedNode d)) = Inl LexicalError)
   \<and> (\<forall>r. d \<in> set (TYPES h) \<longrightarrow> fromRdf h (Literal v (NamedNode d)) False = Some r \<longrightarrow>
      string_serialize h (Literal v (NamedNode d))
        = (if typeof r = ''string'' then Inr r else Inl LexicalError))
   \<and> (\<forall>r. d \<in> set (TYPES h) \<longrightarrow> fromRdf h (Literal v (NamedNode d)) True = Some r \<longrightarrow>
      date_serialize h (Literal v (NamedNode d))
        = (if instanceofDate r then Inr r else Inl LexicalError)
      \<and> int_serialize h (Literal v (NamedNode d))
        = (if typeof r = ''number'' then Inl LexicalError else Inr r)
      \<and> float_serialize h (Literal v (NamedNode d))
        = (if typeof r = ''number'' then Inl LexicalError else Inr r))
   \<and> (newURL v = None \<longrightarrow>
      url_serialize newURL (Literal v (NamedNode anyURI)) = Inl LexicalError)
   \<and> (\<forall>href. newURL v = Some href \<longrightarrow>
      url_serialize newURL (Literal v (NamedNode anyURI)) = Inr (JSURL href))
   \<and> ID_serialize (NamedNode v) = Inr (JSString v)
   \<and> (string_serialize h t = Inl LexicalError \<or> date_serialize h t = Inl LexicalError
       \<or> int_serialize h t = Inl LexicalError \<or> float_serialize h t = Inl LexicalError \<longrightarrow>
      (\<exists>w e. t = Literal w (NamedNode e) \<and> e \<in> set (TYPES h)))
   \<and> (url_serialize newURL t = Inl LexicalError \<longrightarrow> (\<exists>w. t = Literal w (NamedNode anyURI)))"
proof (intro conjI impI allI)
  assume "string_serialize h t = Inl LexicalError \<or> date_serialize h t = Inl LexicalError
       \<or> int_serialize h t = Inl LexicalError \<or> float_serialize h t = Inl LexicalError"
  then show "\<exists>w e. t = Literal w (NamedNode e) \<and> e \<in> set (TYPES h)"
    using string_serialize_lexical date_serialize_lexical int_serialize_lexical
      float_serialize_lexical by blast
qed (simp_all add: string_serialize_kind date_serialize_kind int_serialize_kind
      float_serialize_kind url_serialize_kind ID_serialize_kind
      string_serialize_malformed date_serialize_malformed int_serialize_malformed
      float_serialize_malformed url_serialize_malformed
      string_serialize_datatype date_serialize_datatype int_serialize_datatype
      float_serialize_datatype url_serialize_datatype url_serialize_lexical
      string_serialize_value date_serialize_value int_serialize_value
      float_serialize_value url_serialize_value ID_serialize_NamedNode)

theorem decode_check_order_witness:
  "string_serialize throwingHandler (NamedNode ''http://example.org/x'') = Inl ShapeMismatch
   \<and> url_serialize (\<lambda>s. None) (BlankNode ''b0'') = Inl ShapeMismatch
   \<and> ID_serialize (Literal ''http://example.org/x'' (NamedNode anyURI)) = Inl ShapeMismatch
   \<and> date_serialize throwingHandler (Literal ''abc'' (BlankNode ''b0'')) = Inl MalformedDatatype
   \<and> int_serialize throwingHandler (Literal ''abc'' (NamedNode ''http://example.org/other''))
       = Inl DatatypeMismatch
   \<and> url_serialize (\<lambda>s. None) (Literal ''abc'' (NamedNode ''http://example.org/other''))
       = Inl DatatypeMismatch
   \<and> string_serialize throwingHandler
        (Literal ''abc'' (NamedNode ''http://www.w3.org/2001/XMLSchema#integer''))
       = Inl LexicalError
   \<and> float_serialize throwingHandler
        (Literal ''abc'' (NamedNode ''http://www.w3.org/2001/XMLSchema#integer''))
       = Inl LexicalError
   \<and> string_serialize textHandler
        (Literal ''abc'' (NamedNode ''http://www.w3.org/2001/XMLSchema#integer''))
       = Inr (JSString ''abc'')
   \<and> date_serialize textHandler
        (Literal ''abc'' (NamedNode ''http://www.w3.org/2001/XMLSchema#integer''))
       = Inl LexicalError
   \<and> string_serialize numberHandler
        (Literal ''5'' (NamedNode ''http://www.w3.org/2001/XMLSchema#integer''))
       = Inl LexicalError
   \<and> int_serialize numberHandler
        (Literal ''5'' (NamedNode ''http://www.w3.org/2001/XMLSchema#integer''))
       = Inl LexicalError
   \<and> url_serialize (\<lambda>s. None) (Literal ''abc'' (NamedNode anyURI)) = Inl LexicalError
   \<and> url_serialize (\<lambda>s. Some s) (Literal ''http://example.org/x'' (NamedNode anyURI))
       = Inr (JSURL ''http://example.org/x'')
   \<and> (\<exists>w e. Literal ''abc'' (NamedNode ''http://www.w3.org/2001/XMLSchema#integer'')
                = Literal w (NamedNode e) \<and> e \<in> set (TYPES throwingHandler))
   \<and> (\<exists>w. Literal ''abc'' (NamedNode anyURI) = Literal w (NamedNode anyURI))"
proof -
  let ?H = throwingHandler
  let ?T = textHandler
  let ?M = numberHandler
  let ?N = "\<lambda>s::string. None::string option"
  let ?S = "\<lambda>s::string. Some s"
  let ?other = "''http://example.org/other''"
  let ?xi = "''http://www.w3.org/2001/XMLSchema#integer''"
  let ?int = "Literal ''abc'' (NamedNode ?xi)"
  let ?five = "Literal ''5'' (NamedNode ?xi)"
  let ?uri = "Literal ''abc'' (NamedNode anyURI)"
  have k1: "\<not> isLiteral (NamedNode ''http://example.org/x'')" by simp
  have k2: "\<not> isLiteral (BlankNode ''b0'')" by simp
  have k3: "\<not> isNamedNode (Literal ''http://example.org/x'' (NamedNode anyURI))" by simp
  have k4: "\<not> isNamedNode (BlankNode ''b0'')" by simp
  have d1: "?other \<notin> set (TYPES ?H)" by (simp add: throwingHandler_def)
  have d2: "?other \<noteq> anyURI" by (simp add: anyURI_def)
  have mH: "?xi \<in> set (TYPES ?H)" by (simp add: throwingHandler_def)
  have mT: "?xi \<in> set (TYPES ?T)" by (simp add: textHandler_def)
  have mM: "?xi \<in> set (TYPES ?M)" by (simp add: numberHandler_def)
  have fH: "fromRdf ?H ?int False = None" "fromRdf ?H ?int True = None"
    by (simp_all add: throwingHandler_def)
  have fT: "fromRdf ?T ?int False = Some (JSString ''abc'')"
    "fromRdf ?T ?int True = Some (JSString ''abc'')"
    by (simp_all add: textHandler_def)
  have fM: "fromRdf ?M ?five False = Some (JSNumber (Num 5))"
    "fromRdf ?M ?five True = Some (JSNumber (Num 5))"
    by (simp_all add: numberHandler_def)
  have u1: "?N ''abc'' = None" by simp
  have u2: "?S ''http://example.org/x'' = Some ''http://example.org/x''" by simp
  from k1 decode_check_order [of "NamedNode ''http://example.org/x''" ?H]
  have r1: "string_serialize ?H (NamedNode ''http://example.org/x'') = Inl ShapeMismatch"
    by blast
  from k2 decode_check_order [of "BlankNode ''b0''" ?H ?N]
  have r2: "url_serialize ?N (BlankNode ''b0'') = Inl ShapeMismatch" by blast
  from k3 decode_check_order [of "Literal ''http://example.org/x'' (NamedNode anyURI)"]
  have r3: "ID_serialize (Literal ''http://example.org/x'' (NamedNode anyURI)) = Inl ShapeMismatch"
    by blast
  from k4 decode_check_order [of _ ?H _ "BlankNode ''b0''" "''abc''"]
  have r4: "date_serialize ?H (Literal ''abc'' (BlankNode ''b0'')) = Inl MalformedDatatype"
    by blast
  from d1 decode_check_order [of _ ?H _ _ "''abc''" ?other]
  have r5: "int_serialize ?H (Literal ''abc'' (NamedNode ?other)) = Inl DatatypeMismatch"
    by blast
  from d2 decode_check_order [of _ _ ?N _ "''abc''" ?other]
  have r6: "url_serialize ?N (Literal ''abc'' (NamedNode ?other)) = Inl DatatypeMismatch"
    by blast
  from mH fH decode_check_order [of _ ?H _ _ "''abc''" ?xi]
  have r7: "string_serialize ?H ?int = Inl LexicalError"
    and r8: "float_serialize ?H ?int = Inl LexicalError"
    by blast+
  from mT fT decode_check_order [of _ ?T _ _ "''abc''" ?xi]
  have "string_serialize ?T ?int
      = (if typeof (JSString ''abc'') = ''string'' then Inr (JSString ''abc'') else Inl LexicalError)"
    and "date_serialize ?T ?int
      = (if instanceofDate (JSString ''abc'') then Inr (JSString ''abc'') else Inl LexicalError)"
    by blast+
  then have r9: "string_serialize ?T ?int = Inr (JSString ''abc'')"
    and r10: "date_serialize ?T ?int = Inl LexicalError"
    by simp_all
  from mM fM decode_check_order [of _ ?M _ _ "''5''" ?xi]
  have "string_serialize ?M ?five
      = (if typeof (JSNumber (Num 5)) = ''string'' then Inr (JSNumber (Num 5))
         else Inl LexicalError)"
    and "int_serialize ?M ?five
      = (if typeof (JSNumber (Num 5)) = ''number'' then Inl LexicalError
         else Inr (JSNumber (Num 5)))"
    by blast+
  then have r11: "string_serialize ?M ?five = Inl LexicalError"
    and r12: "int_serialize ?M ?five = Inl LexicalError"
    by simp_all
  from u1 decode_check_order [of _ _ ?N _ "''abc''"]
  have r13: "url_serialize ?N ?uri = Inl LexicalError" by blast
  from u2 decode_check_order [of _ _ ?S _ "''http://example.org/x''"]
  have r14: "url_serialize ?S (Literal ''http://example.org/x'' (NamedNode anyURI))
      = Inr (JSURL ''http://example.org/x'')" by blast
  from r8 decode_check_order [of ?int ?H]
  have r15: "\<exists>w e. ?int = Literal w (NamedNode e) \<and> e \<in> set (TYPES ?H)" by blast
  from r13 decode_check_order [of ?uri _ ?N]
  have r16: "\<exists>w. ?uri = Literal w (NamedNode anyURI)" by blast
  from r1 r2 r3 r4 r5 r6 r7 r8 r9 r10 r11 r12 r13 r14 r15 r16 show ?thesis by blast
qed

section \<open>The scalar codecs: numbers\<close>

text \<open>
  Claim C1 asks that decoding what the encoder produced gives the value back, for
  every family. For the families Integer and Double the code does not: the guard of
  \<open>parseValue\<close> throws exactly when the value is a number, so the round trip of
  a number ends in that error, whatever the type handler does.
\<close>

theorem numeric_roundTrip_fails:
  "roundTrip (int_parseValue h) (int_serialize h) (JSNumber n) = Inl TypeMismatch
   \<and> roundTrip (float_parseValue h) (float_serialize h) (JSNumber n) = Inl TypeMismatch"
  by (simp add: roundTrip_def int_parseValue_def float_parseValue_def)

text \<open>
  Claim C9 asks that the encoder of every family produces a literal of the family's
  canonical datatype on a valid native value. The encoders of Integer and Double
  produce no literal for the number 5: they throw.
\<close>

theorem numeric_parseValue_rejects_numbers:
  "int_parseValue intHandler (JSNumber (Num 5)) = Inl TypeMismatch
   \<and> float_parseValue doubleHandler (JSNumber (Num 5)) = Inl TypeMismatch"
  by (simp add: int_parseValue_def float_parseValue_def)

text \<open>
  The decoders of \<open>int\<close> and \<open>float\<close> reject every number that the handler
  returns. The round trip of \<open>ID\<close> gives the string back, and the encoder of
  \<open>url\<close> tags the \<open>href\<close> with \<open>xsd:anyURI\<close>.
\<close>

lemma numeric_serialize_rejects_numbers:
  "d \<in> set (TYPES h) \<Longrightarrow> fromRdf h (Literal v (NamedNode d)) True = Some (JSNumber n) \<Longrightarrow>
   int_serialize h (Literal v (NamedNode d)) = Inl LexicalError
   \<and> float_serialize h (Literal v (NamedNode d)) = Inl LexicalError"
  by (simp add: int_serialize_def float_serialize_def)

lemma ID_roundTrip: "roundTrip ID_parseValue ID_serialize (JSString s) = Inr (JSString s)"
  by (simp add: roundTrip_def ID_parseValue_def ID_serialize_def)

lemma url_parseValue_canonical:
  "url_parseValue (JSURL href) = Inr (Literal href (NamedNode anyURI))"
  by (simp add: url_parseValue_def)

section \<open>The identifier helper: properties\<close>

text \<open>
  Claim C5 asks that a single key other than \<open>iri\<close> with a text value fails with
  \<open>UnknownKey\<close>. For the key \<open>toString\<close> the code does not fail:
  \<open>'toString' in mapping\<close> holds through the prototype, and the inherited
  function is called.
\<close>

theorem nodeFromDirective_inherited_key:
  "nodeFromDirective (Some [(''toString'', JSString ''https://example.org/x'')]) ''identifier''
     = Inr (JSString ''[object Object]'')"
  by (simp add: nodeFromDirective_def mappingKeys_def ObjectPrototypeKeys_def callInherited_def)

text \<open>
  The rest of the helper: the key \<open>iri\<close> wraps the text in a NamedNode; a key
  that is neither \<open>iri\<close> nor inherited fails with \<open>UnknownKey\<close>, which names
  \<open>iri\<close> alone; no entry, or more than one, fails with \<open>ArityError\<close>; a value
  that is not a string fails with \<open>TypeError\<close>, whatever the key is.
\<close>

lemma nodeFromDirective_iri:
  "nodeFromDirective (Some [(''iri'', JSString v)]) dn = Inr (JSTerm (NamedNode v))"
  by (simp add: nodeFromDirective_def mappingKeys_def)

lemma nodeFromDirective_unknown:
  "key \<notin> set mappingKeys \<Longrightarrow> key \<notin> set ObjectPrototypeKeys \<Longrightarrow>
   nodeFromDirective (Some [(key, JSString v)]) dn = Inl (UnknownKey [''iri''] key)"
  by (simp add: nodeFromDirective_def mappingKeys_def)

lemma nodeFromDirective_arity:
  "length entries \<noteq> 1 \<Longrightarrow>
   nodeFromDirective (Some entries) dn = Inl (ArityError dn (length entries))"
  by (cases entries rule: list.exhaust; cases "tl entries")
     (auto simp: nodeFromDirective_def split: list.splits)

lemma nodeFromDirective_undefined: "nodeFromDirective None dn = Inl (ArityError dn 0)"
  by (simp add: nodeFromDirective_def)

lemma nodeFromDirective_not_text:
  "typeof val \<noteq> ''string'' \<Longrightarrow>
   nodeFromDirective (Some [(key, val)]) dn = Inl (TypeError dn (typeof val))"
  by (cases val) (simp_all add: nodeFromDirective_def)

section \<open>The shape compiler: the name of a shape\<close>

text \<open>
  Claim C8 asks that a shape with no name fails with a descriptive error. The
  \<open>Person\<close> shape without its \<open>sh:name\<close> fails with the engine's TypeError:
  \<open>shName[0]\<close> is \<open>undefined\<close> and its \<open>value\<close> is read.
\<close>

theorem shape_without_name_crashes:
  "getMeshSource xsdTables camelizeWord (Some [personShape\<lparr>shName := []\<rparr>])
     = Inl RuntimeTypeError"
  by code_simp

text \<open>
  In general: when the properties compile, a shape with no value of \<open>sh:name\<close>
  fails with that TypeError, and a shape with a value, literal or not, compiles under
  the \<open>value\<close> of the first one.
\<close>

lemma shapeType_without_name:
  "shName sh = [] \<Longrightarrow> list_all (\<lambda>q. \<not> isl (propertyField L c q)) (properties sh) \<Longrightarrow>
   shapeType L c sh = Inl RuntimeTypeError"
  using propertiesLoop_succeeds [of L c "properties sh" "[]"]
  by (auto simp: shapeType_def)

lemma shapeType_name_not_literal:
  "shName sh = t # ts \<Longrightarrow> list_all (\<lambda>q. \<not> isl (propertyField L c q)) (properties sh) \<Longrightarrow>
   \<exists>ty. shapeType L c sh = Inr ty \<and> typeName ty = term_value t"
  using propertiesLoop_succeeds [of L c "properties sh" "[]"]
  by (auto simp: shapeType_def createObject_def)


end
